theory Spec2Isabelle
  imports Complex_Main "HOL-Library.Multiset"
begin

section \<open>Python strings and numbers as the driver uses them\<close>

text \<open>
  The strings that the driver is given or builds (names, requests, error texts) are
  \<^typ>\<open>string\<close>s, their characters being code points below 256.  What a socket receives
  is a sequence of bytes, also a \<^typ>\<open>string\<close>; the text that \<open>bytes.decode()\<close> makes of it
  is a list of Unicode code points (\<open>unicode\<close>), since every code point can arrive.  The
  functions that Python applies to either kind of string are defined on code points, with
  the tables of the interpreter's Unicode database (14.0, that of CPython 3.11).
\<close>

type_synonym unicode = "int list"

definition codepoints :: "string \<Rightarrow> unicode" where
  "codepoints s = map of_char s"

definition isspace :: "int \<Rightarrow> bool" where
  \<comment> \<open>the code points that \<open>str.isspace\<close> accepts and \<open>str.split()\<close> splits at\<close>
  "isspace c =
     (c \<in> {9, 10, 11, 12, 13, 28, 29, 30, 31, 32, 133, 160, 5760} \<or> (8192 \<le> c \<and> c \<le> 8202)
      \<or> c \<in> {8232, 8233, 8239, 8287, 12288})"

definition int_space :: "int \<Rightarrow> bool" where
  \<comment> \<open>the white space that \<open>int\<close> skips around a literal: of the ASCII characters only
      tab to carriage return and the space (not the separators 28 to 31)\<close>
  "int_space c = (if c < 128 then c \<in> {9, 10, 11, 12, 13, 32} else isspace c)"

definition decimal_zeros :: "int list" where
  \<comment> \<open>the digit zero of every decimal script; its nine successors are the digits 1 to 9\<close>
  "decimal_zeros =
     [0x30, 0x660, 0x6F0, 0x7C0, 0x966, 0x9E6, 0xA66, 0xAE6, 0xB66, 0xBE6, 0xC66, 0xCE6, 0xD66,
      0xDE6, 0xE50, 0xED0, 0xF20, 0x1040, 0x1090, 0x17E0, 0x1810, 0x1946, 0x19D0, 0x1A80, 0x1A90,
      0x1B50, 0x1BB0, 0x1C40, 0x1C50, 0xA620, 0xA8D0, 0xA900, 0xA9D0, 0xA9F0, 0xAA50, 0xABF0,
      0xFF10, 0x104A0, 0x10D30, 0x11066, 0x110F0, 0x11136, 0x111D0, 0x112F0, 0x11450, 0x114D0,
      0x11650, 0x116C0, 0x11730, 0x118E0, 0x11950, 0x11C50, 0x11D50, 0x11DA0, 0x16A60, 0x16AC0,
      0x16B50, 0x1D7CE, 0x1D7D8, 0x1D7E2, 0x1D7EC, 0x1D7F6, 0x1E140, 0x1E2F0, 0x1E950, 0x1FBF0]"

definition todecimal :: "int \<Rightarrow> int option" where
  \<comment> \<open>the value of a decimal digit, of any script\<close>
  "todecimal c =
     (case filter (\<lambda>z. z \<le> c \<and> c < z + 10) decimal_zeros of [] \<Rightarrow> None | z # _ \<Rightarrow> Some (c - z))"

definition is_space :: "char \<Rightarrow> bool" where
  "is_space c = isspace (of_char c)"

definition digit_char :: "int \<Rightarrow> char" where
  "digit_char n = char_of (48 + n)"

function str_nat :: "int \<Rightarrow> string" where
  \<comment> \<open>the decimal digits of a number that is not negative\<close>
  "str_nat n = (if n < 10 then [digit_char n] else str_nat (n div 10) @ [digit_char (n mod 10)])"
  by pat_completeness auto
termination
  by (relation "measure nat") auto

declare str_nat.simps [simp del]

definition format_d :: "int \<Rightarrow> string" where
  \<comment> \<open>\<open>"{:d}".format(n)\<close>\<close>
  "format_d n = (if n < 0 then ''-'' else '''') @ str_nat \<bar>n\<bar>"

definition rstrip :: "char \<Rightarrow> string \<Rightarrow> string" where
  \<comment> \<open>\<open>s.rstrip(c)\<close> for a one-character argument\<close>
  "rstrip c s = rev (dropWhile (\<lambda>x. x = c) (rev s))"

fun split_sep :: "char \<Rightarrow> string \<Rightarrow> string list" where
  \<comment> \<open>\<open>s.split(c)\<close>: one more part than there are separators, empty parts kept\<close>
  "split_sep c [] = [[]]"
| "split_sep c (x # xs) =
     (if x = c then [] # split_sep c xs
      else (case split_sep c xs of [] \<Rightarrow> [[x]] | w # ws \<Rightarrow> (x # w) # ws))"

fun split_ws_from :: "('a \<Rightarrow> bool) \<Rightarrow> 'a list \<Rightarrow> 'a list \<Rightarrow> 'a list list" where
  \<comment> \<open>the first argument says what white space is, the second is the token being read,
      reversed\<close>
  "split_ws_from sp cur [] = (if cur = [] then [] else [rev cur])"
| "split_ws_from sp cur (x # xs) =
     (if sp x then (if cur = [] then split_ws_from sp [] xs else rev cur # split_ws_from sp [] xs)
      else split_ws_from sp (x # cur) xs)"

definition split_ws :: "string \<Rightarrow> string list" where
  \<comment> \<open>\<open>s.split()\<close>: the maximal runs of non-whitespace\<close>
  "split_ws s = split_ws_from is_space [] s"

definition unicode_split :: "unicode \<Rightarrow> unicode list" where
  \<comment> \<open>\<open>s.split()\<close> on decoded text\<close>
  "unicode_split s = split_ws_from isspace [] s"

fun join :: "'a list \<Rightarrow> 'a list list \<Rightarrow> 'a list" where
  \<comment> \<open>\<open>sep.join(parts)\<close>\<close>
  "join sep [] = []"
| "join sep [w] = w"
| "join sep (w # v # ws) = w @ sep @ join sep (v # ws)"

fun int_body_ok :: "unicode \<Rightarrow> bool" where
  \<comment> \<open>digits, with single underscores allowed between two digits\<close>
  "int_body_ok [] = False"
| "int_body_ok [c] = (todecimal c \<noteq> None)"
| "int_body_ok (c # d # r) =
     (todecimal c \<noteq> None \<and> (if d = 95 then int_body_ok r else int_body_ok (d # r)))"

definition int_of_digits :: "unicode \<Rightarrow> int" where
  "int_of_digits ds = foldl (\<lambda>a c. 10 * a + the (todecimal c)) 0 ds"

definition int_max_str_digits :: int where
  \<comment> \<open>the interpreter's default limit on the digits of a decimal string given to \<open>int\<close>\<close>
  "int_max_str_digits = 4300"

definition unicode_int :: "unicode \<Rightarrow> int option" where
  \<comment> \<open>\<open>int(s)\<close> on a string: \<open>None\<close> is the ValueError\<close>
  "unicode_int s =
     (let t = rev (dropWhile int_space (rev (dropWhile int_space s)));
          neg = (t \<noteq> [] \<and> hd t = 45);
          body = (if t \<noteq> [] \<and> (hd t = 45 \<or> hd t = 43) then tl t else t);
          ds = filter (\<lambda>c. todecimal c \<noteq> None) body
      in if int_body_ok body \<and> int (length ds) \<le> int_max_str_digits
         then Some (if neg then - int_of_digits ds else int_of_digits ds)
         else None)"

definition py_int :: "string \<Rightarrow> int option" where
  \<comment> \<open>\<open>int(s)\<close> on a string of the driver\<close>
  "py_int s = unicode_int (codepoints s)"

definition continuation :: "int \<Rightarrow> bool" where
  \<comment> \<open>a continuation byte of UTF-8\<close>
  "continuation b = (128 \<le> b \<and> b \<le> 191)"

definition cons_option :: "'a \<Rightarrow> 'a list option \<Rightarrow> 'a list option" where
  "cons_option x r = (case r of None \<Rightarrow> None | Some xs \<Rightarrow> Some (x # xs))"

fun utf8_decode :: "int list \<Rightarrow> unicode option" where
  \<comment> \<open>the strict UTF-8 decoder on the values of the bytes: no overlong form, no surrogate,
      nothing above 0x10FFFF; \<open>None\<close> is the UnicodeDecodeError\<close>
  "utf8_decode [] = Some []"
| "utf8_decode (a # bs) =
     (if a < 128 then cons_option a (utf8_decode bs)
      else if 194 \<le> a \<and> a \<le> 223 then
        (case bs of
           b # r \<Rightarrow>
             if continuation b then cons_option ((a - 192) * 64 + (b - 128)) (utf8_decode r) else None
         | _ \<Rightarrow> None)
      else if 224 \<le> a \<and> a \<le> 239 then
        (case bs of
           b # c # r \<Rightarrow>
             if continuation b \<and> continuation c \<and> (a = 224 \<longrightarrow> 160 \<le> b) \<and> (a = 237 \<longrightarrow> b \<le> 159)
             then cons_option ((a - 224) * 4096 + (b - 128) * 64 + (c - 128)) (utf8_decode r)
             else None
         | _ \<Rightarrow> None)
      else if 240 \<le> a \<and> a \<le> 244 then
        (case bs of
           b # c # d # r \<Rightarrow>
             if continuation b \<and> continuation c \<and> continuation d
                \<and> (a = 240 \<longrightarrow> 144 \<le> b) \<and> (a = 244 \<longrightarrow> b \<le> 143)
             then cons_option ((a - 240) * 262144 + (b - 128) * 4096 + (c - 128) * 64 + (d - 128))
                    (utf8_decode r)
             else None
         | _ \<Rightarrow> None)
      else None)"

definition decode :: "string \<Rightarrow> unicode option" where
  \<comment> \<open>\<open>bytes.decode()\<close>\<close>
  "decode data = utf8_decode (codepoints data)"

text \<open>
  A Python \<open>float\<close> is an IEEE 754 double: a rational number that the format can hold, one
  of the two zeros, an infinity, or NaN.  \<open>Finite 0\<close> is the positive zero.  The result of
  an operation is the exact result rounded to the nearest double, ties to the even
  mantissa (\<open>round_double\<close>), which is also how the interpreter reads a decimal literal.
  \<open>math.degrees\<close>, \<open>math.radians\<close> and \<open>float\<close> on a string are parameters of the
  operations that call them.
\<close>

datatype pyfloat = Finite rat | NegZero | PosInf | NegInf | NaN

definition sq :: "rat \<Rightarrow> rat" where
  "sq x = x * x"

function power2 :: "int \<Rightarrow> rat" where
  \<comment> \<open>two to a power that is not negative\<close>
  "power2 n =
     (if n \<le> 0 then 1
      else if even n then sq (power2 (n div 2)) else 2 * sq (power2 (n div 2)))"
  by pat_completeness auto
termination
  by (relation "measure nat") auto

declare power2.simps [simp del]

definition pow2 :: "int \<Rightarrow> rat" where
  "pow2 e = (if 0 \<le> e then power2 e else 1 / power2 (- e))"

function bit_length :: "int \<Rightarrow> int" where
  \<comment> \<open>the number of binary digits of a positive number\<close>
  "bit_length n = (if n \<le> 0 then 0 else 1 + bit_length (n div 2))"
  by pat_completeness auto
termination
  by (relation "measure nat") auto

declare bit_length.simps [simp del]

definition floor_log2 :: "rat \<Rightarrow> int" where
  \<comment> \<open>the binary exponent of a positive number: \<open>2 ^ e \<le> a < 2 ^ (e + 1)\<close>\<close>
  "floor_log2 a =
     (case quotient_of a of (n, d) \<Rightarrow>
        (let e = bit_length n - bit_length d in if pow2 e \<le> a then e else e - 1))"

definition round_half_even :: "rat \<Rightarrow> int" where
  \<comment> \<open>Python's \<open>round(x)\<close>, and the rounding of fixed-point formatting\<close>
  "round_half_even q =
     (let f = \<lfloor>q\<rfloor>; d = q - of_int f
      in if d < 1 / 2 then f else if 1 / 2 < d then f + 1 else if even f then f else f + 1)"

definition round_double :: "rat \<Rightarrow> pyfloat" where
  \<comment> \<open>the double nearest to a number: 53 binary digits, exponents from -1022 (below,
      the spacing stays \<open>2 ^ -1074\<close>) to 1023 (above, infinity)\<close>
  "round_double x =
     (if x = 0 then Finite 0
      else
        (let a = \<bar>x\<bar>;
             q = pow2 (max (floor_log2 a) (- 1022) - 52);
             v = of_int (round_half_even (a / q)) * q
         in if pow2 1024 \<le> v then (if x < 0 then NegInf else PosInf)
            else if v = 0 then (if x < 0 then NegZero else Finite 0)
            else Finite (if x < 0 then - v else v)))"

definition is_neg :: "pyfloat \<Rightarrow> bool" where
  \<comment> \<open>the sign bit (that of NaN plays no role)\<close>
  "is_neg x = (case x of Finite q \<Rightarrow> q < 0 | NegZero \<Rightarrow> True | NegInf \<Rightarrow> True | _ \<Rightarrow> False)"

definition fmul :: "pyfloat \<Rightarrow> pyfloat \<Rightarrow> pyfloat" where
  \<comment> \<open>\<open>x * y\<close> on floats\<close>
  "fmul x y =
     (let neg = (is_neg x \<noteq> is_neg y);
          zero = (if neg then NegZero else Finite 0);
          inf = (if neg then NegInf else PosInf)
      in case (x, y) of
           (NaN, _) \<Rightarrow> NaN
         | (_, NaN) \<Rightarrow> NaN
         | (Finite a, Finite b) \<Rightarrow> (if a * b = 0 then zero else round_double (a * b))
         | (Finite a, NegZero) \<Rightarrow> zero
         | (NegZero, Finite b) \<Rightarrow> zero
         | (NegZero, NegZero) \<Rightarrow> zero
         | (Finite a, _) \<Rightarrow> (if a = 0 then NaN else inf)
         | (NegZero, _) \<Rightarrow> NaN
         | (_, Finite b) \<Rightarrow> (if b = 0 then NaN else inf)
         | (_, NegZero) \<Rightarrow> NaN
         | _ \<Rightarrow> inf)"

definition float_value :: "pyfloat \<Rightarrow> rat option" where
  \<comment> \<open>the number a finite float denotes\<close>
  "float_value x = (case x of Finite q \<Rightarrow> Some q | NegZero \<Rightarrow> Some 0 | _ \<Rightarrow> None)"

definition flt :: "pyfloat \<Rightarrow> pyfloat \<Rightarrow> bool" where
  \<comment> \<open>\<open>x < y\<close> on floats: false when one of them is NaN, the two zeros are equal\<close>
  "flt x y =
     (case (x, y) of
        (NaN, _) \<Rightarrow> False
      | (_, NaN) \<Rightarrow> False
      | (PosInf, _) \<Rightarrow> False
      | (_, NegInf) \<Rightarrow> False
      | (NegInf, _) \<Rightarrow> True
      | (_, PosInf) \<Rightarrow> True
      | _ \<Rightarrow> the (float_value x) < the (float_value y))"

definition fle :: "pyfloat \<Rightarrow> pyfloat \<Rightarrow> bool" where
  \<comment> \<open>\<open>x <= y\<close> on floats\<close>
  "fle x y = (x \<noteq> NaN \<and> y \<noteq> NaN \<and> \<not> flt y x)"

definition float_of_int :: "int \<Rightarrow> pyfloat option" where
  \<comment> \<open>the float that formatting with \<open>f\<close> makes of an int: \<open>None\<close> is the OverflowError
      of an int beyond the doubles\<close>
  "float_of_int n =
     (case round_double (of_int n) of PosInf \<Rightarrow> None | NegInf \<Rightarrow> None | x \<Rightarrow> Some x)"

definition format_f :: "nat \<Rightarrow> rat \<Rightarrow> string" where
  \<comment> \<open>\<open>k\<close> decimals of a number, correctly rounded, ties to even\<close>
  "format_f k q =
     (let m = round_half_even (\<bar>q\<bar> * 10 ^ k);
          ip = str_nat (m div 10 ^ k);
          fp = str_nat (m mod 10 ^ k)
      in (if q < 0 then ''-'' else '''') @ ip @
         (if k = 0 then '''' else ''.'' @ replicate (k - length fp) CHR ''0'' @ fp))"

definition format_float :: "nat \<Rightarrow> pyfloat \<Rightarrow> string" where
  \<comment> \<open>\<open>"{:.kf}".format(x)\<close>\<close>
  "format_float k x =
     (case x of
        Finite q \<Rightarrow> format_f k q
      | NegZero \<Rightarrow> ''-'' @ format_f k 0
      | PosInf \<Rightarrow> ''inf''
      | NegInf \<Rightarrow> ''-inf''
      | NaN \<Rightarrow> ''nan'')"

section \<open>Packets, responses and errors\<close>

datatype RawResponse = RawResponse (mirror_code: int) (res_code: int) (message: unicode)

datatype RequestPacket = RequestPacket (req: string) (timeout: rat) (return_res: bool)

text \<open>
  A timeout is a number of seconds that the driver only hands on, to the packet and from
  there to the socket; it is the rational number it denotes.
\<close>

text \<open>
  The text of a YumiException and of a KinematicsException can contain the message of a
  response, so it is \<open>unicode\<close>.  UnicodeDecodeError is a subclass of ValueError; nothing
  in the driver catches either where a response is decoded.
\<close>

datatype error =
    YumiException unicode
  | YuMiCommException string
  | YuMiControlException RequestPacket RawResponse
  | KinematicsException unicode
  | RwsException string
  | ProgramStopped
  | IndexError
  | ValueError string
  | KeyError string
  | OSError string
  | AssertionError
  | TimeoutError
  | UnicodeDecodeError
  | OverflowError

definition int_of_float :: "pyfloat \<Rightarrow> error + int" where
  \<comment> \<open>\<open>int(x)\<close> on a float: truncation toward zero\<close>
  "int_of_float x =
     (case x of
        Finite q \<Rightarrow> Inr (if 0 \<le> q then \<lfloor>q\<rfloor> else \<lceil>q\<rceil>)
      | NegZero \<Rightarrow> Inr 0
      | NaN \<Rightarrow> Inl (ValueError ''cannot convert float NaN to integer'')
      | _ \<Rightarrow> Inl OverflowError)"

definition METERS_TO_MM :: pyfloat where "METERS_TO_MM = Finite 1000"

definition MAX_TCP_SPEED :: pyfloat where "MAX_TCP_SPEED = Finite (3 / 2)"

definition MAX_GRIPPER_WIDTH :: pyfloat where
  \<comment> \<open>the literal \<open>0.02\<close>\<close>
  "MAX_GRIPPER_WIDTH = round_double (2 / 100)"

definition MAX_GRIPPER_FORCE :: pyfloat where
  \<comment> \<open>the int 20, which compares and is formatted as the float 20.0\<close>
  "MAX_GRIPPER_FORCE = Finite 20"

datatype CmdCodes =
    ping | goto_pose_linear | goto_joints_c | get_pose_c | get_joints | goto_pose_c
  | set_tool_c | set_speed_c | set_zone_c | set_conf_c
  | goto_pose_sync_c | goto_joints_sync_c | goto_pose_delta_c
  | close_gripper_c | open_gripper_c | calibrate_gripper_c | set_gripper_max_speed_c
  | set_gripper_force_c | move_gripper_c | get_gripper_width_c
  | buffer_add | buffer_clear | buffer_size | buffer_move | set_circ_point | move_by_circ_point
  | is_pose_reachable_c | is_joints_reachable | ik_c | fk_c
  | set_lead_through | is_lead_through | is_gripper_calibrated_c
  | close_connection | reset_home_c

fun cmd_value :: "CmdCodes \<Rightarrow> int" where
  "cmd_value ping = 0"
| "cmd_value goto_pose_linear = 1"
| "cmd_value goto_joints_c = 2"
| "cmd_value get_pose_c = 3"
| "cmd_value get_joints = 4"
| "cmd_value goto_pose_c = 5"
| "cmd_value set_tool_c = 6"
| "cmd_value set_speed_c = 8"
| "cmd_value set_zone_c = 9"
| "cmd_value set_conf_c = 10"
| "cmd_value goto_pose_sync_c = 11"
| "cmd_value goto_joints_sync_c = 12"
| "cmd_value goto_pose_delta_c = 13"
| "cmd_value close_gripper_c = 20"
| "cmd_value open_gripper_c = 21"
| "cmd_value calibrate_gripper_c = 22"
| "cmd_value set_gripper_max_speed_c = 23"
| "cmd_value set_gripper_force_c = 24"
| "cmd_value move_gripper_c = 25"
| "cmd_value get_gripper_width_c = 26"
| "cmd_value buffer_add = 30"
| "cmd_value buffer_clear = 31"
| "cmd_value buffer_size = 32"
| "cmd_value buffer_move = 33"
| "cmd_value set_circ_point = 35"
| "cmd_value move_by_circ_point = 36"
| "cmd_value is_pose_reachable_c = 40"
| "cmd_value is_joints_reachable = 41"
| "cmd_value ik_c = 42"
| "cmd_value fk_c = 43"
| "cmd_value set_lead_through = 60"
| "cmd_value is_lead_through = 61"
| "cmd_value is_gripper_calibrated_c = 70"
| "cmd_value close_connection = 99"
| "cmd_value reset_home_c = 100"


definition ResCodes_success :: int where "ResCodes_success = 1"

section \<open>The socket: \<open>YumiSocket.send_request\<close>\<close>

text \<open>
  What the controller's side of one socket does with a request is the environment's:
  sending fails, receiving fails, or some bytes arrive (at most \<open>bufsize\<close> of them, what
  \<open>recv\<close> returns).  The bytes are decoded inside the \<open>try\<close> whose handler catches
  \<open>socket.error\<close> only, so a UnicodeDecodeError leaves \<open>send_request\<close> as it is.  The
  test \<open>if not self._socket\<close> of the source never fires, a socket object being true.
\<close>

datatype sock_reply = SendError | RecvError | Received string

definition send_request :: "RequestPacket \<Rightarrow> sock_reply \<Rightarrow> error + RawResponse" where
  "send_request req_packet reply =
     (case reply of
        SendError \<Rightarrow> Inl (YuMiCommException ''Failed to send request.'')
      | RecvError \<Rightarrow> Inl (YuMiCommException ''Failed to get response.'')
      | Received data \<Rightarrow>
          (case decode data of
             None \<Rightarrow> Inl UnicodeDecodeError
           | Some recv \<Rightarrow>
               if recv = [] then Inl (YuMiCommException ''Empty response.'')
               else
                 (let tokens = unicode_split recv in
                  if length tokens < 1 then Inl (YuMiCommException ''Invalid response.'')
                  else
                    (case unicode_int (tokens ! 0) of
                       None \<Rightarrow> Inl (YuMiCommException ''Invalid response.'')
                     | Some m \<Rightarrow>
                         (if length tokens < 2 then Inl (YuMiCommException ''Invalid response.'')
                          else
                            (case unicode_int (tokens ! 1) of
                               None \<Rightarrow> Inl (YuMiCommException ''Invalid response.'')
                             | Some r \<Rightarrow>
                                 Inr (RawResponse m r (join (codepoints '' '') (drop 2 tokens)))))))))"

section \<open>The arm session: \<open>YuMiArm\<close>\<close>

text \<open>
  An arm holds the identifiers of its socket objects.  An operation is given the
  environment's answer to every packet on every socket, and returns its result together
  with the packets it put on the wire, each with the socket it went to.
\<close>

record YuMiArm =
  name :: string
  ip :: string
  port :: nat
  bufsize :: nat
  motion_timeout :: rat
  comm_timeout :: rat
  main_socket :: nat
  poses_socket :: nat
  joints_socket :: nat
  sockets :: "nat list"

type_synonym responder = "nat \<Rightarrow> RequestPacket \<Rightarrow> sock_reply"

type_synonym wire = "(nat \<times> RequestPacket) list"

definition JOINTS :: nat where "JOINTS = 7"

definition request :: "YuMiArm \<Rightarrow> string \<Rightarrow> rat option \<Rightarrow> nat option \<Rightarrow> responder
    \<Rightarrow> (error + RawResponse) \<times> wire" where
  \<comment> \<open>\<open>YuMiArm._request\<close>\<close>
  "request arm rq tmo sock resp =
     (let timeout = (case tmo of None \<Rightarrow> comm_timeout arm | Some t \<Rightarrow> t);
          socket = (case sock of None \<Rightarrow> main_socket arm | Some s \<Rightarrow> s);
          req_packet = RequestPacket rq timeout True
      in (case send_request req_packet (resp socket req_packet) of
            Inl e \<Rightarrow> Inl e
          | Inr res \<Rightarrow>
              if res_code res \<noteq> ResCodes_success then Inl (YuMiControlException req_packet res)
              else Inr res,
          [(socket, req_packet)]))"

definition unit_result :: "(error + 'a) \<times> wire \<Rightarrow> (error + unit) \<times> wire" where
  \<comment> \<open>an operation that returns nothing drops the response it got\<close>
  "unit_result rw = (case rw of (Inl e, w) \<Rightarrow> (Inl e, w) | (Inr _, w) \<Rightarrow> (Inr (), w))"

definition construct_req :: "CmdCodes \<Rightarrow> string \<Rightarrow> string" where
  \<comment> \<open>\<open>"{0:d} {1}#".format(code.value, body)\<close>\<close>
  "construct_req code body = format_d (cmd_value code) @ '' '' @ body @ ''#''"

definition iter_to_str :: "('a \<Rightarrow> string) \<Rightarrow> 'a list \<Rightarrow> string" where
  \<comment> \<open>\<open>_iter_to_str\<close>; the template is the function that formats one value\<close>
  "iter_to_str template iterable =
     foldl (\<lambda>result val. result @ rstrip CHR ''.'' (rstrip CHR ''0'' (template val)) @ '' '')
       [] iterable"

section \<open>Joint lists: \<open>_check_and_sort_joints\<close>, \<open>goto_joints\<close>, \<open>goto_joints_sync\<close>, \<open>fk\<close>\<close>

datatype Joint = Joint (jname: string) (jvalue: pyfloat)

definition invalid_format :: "Joint \<Rightarrow> error" where
  "invalid_format j = YumiException (codepoints (''Invalid format of joint name: '' @ jname j @ ''.''))"

definition check_joint :: "YuMiArm \<Rightarrow> Joint \<Rightarrow> error + unit" where
  \<comment> \<open>the body of the \<open>for j in joints\<close> loop\<close>
  "check_joint arm j =
     (let arr = split_sep CHR ''_'' (jname j) in
      if length arr \<le> 2 then Inl IndexError
      else
        (case py_int (arr ! 2) of
           None \<Rightarrow> Inl (invalid_format j)
         | Some idx \<Rightarrow>
             (if length arr \<noteq> 4 \<or> arr ! 0 \<noteq> ''yumi'' \<or> arr ! 1 \<noteq> ''joint''
                 \<or> \<not> (0 < idx \<and> idx \<le> int JOINTS)
              then Inl (invalid_format j)
              else if length (arr ! 3) \<noteq> 1 then
                Inl (YumiException
                       (codepoints (''Joint name '' @ jname j @ '' not valid for '' @ name arm @ '' arm.'')))
              else
                (case name arm of
                   [] \<Rightarrow> Inl IndexError
                 | c # _ \<Rightarrow>
                     if arr ! 3 \<noteq> [c] then
                       Inl (YumiException
                       (codepoints (''Joint name '' @ jname j @ '' not valid for '' @ name arm @ '' arm.'')))
                     else Inr ()))))"

fun check_joints :: "YuMiArm \<Rightarrow> Joint list \<Rightarrow> error + unit" where
  "check_joints arm [] = Inr ()"
| "check_joints arm (j # js) =
     (case check_joint arm j of Inl e \<Rightarrow> Inl e | Inr _ \<Rightarrow> check_joints arm js)"

definition sort_index :: "Joint \<Rightarrow> error + int" where
  \<comment> \<open>the sort key \<open>int(x.name.split("_")[2])\<close>\<close>
  "sort_index j =
     (let arr = split_sep CHR ''_'' (jname j) in
      if length arr \<le> 2 then Inl IndexError
      else case py_int (arr ! 2) of
        None \<Rightarrow> Inl (ValueError ''invalid literal for int()'')
      | Some idx \<Rightarrow> Inr idx)"

fun sort_indices :: "Joint list \<Rightarrow> error + int list" where
  "sort_indices [] = Inr []"
| "sort_indices (j # js) =
     (case sort_index j of
        Inl e \<Rightarrow> Inl e
      | Inr k \<Rightarrow> (case sort_indices js of Inl e \<Rightarrow> Inl e | Inr ks \<Rightarrow> Inr (k # ks)))"

definition sort_joints :: "Joint list \<Rightarrow> error + Joint list" where
  \<comment> \<open>\<open>joints.sort(key=...)\<close>: every key is computed first, the sort is stable\<close>
  "sort_joints joints =
     (case sort_indices joints of
        Inl e \<Rightarrow> Inl e
      | Inr ks \<Rightarrow> Inr (map snd (sort_key fst (zip ks joints))))"

definition check_and_sort_joints :: "YuMiArm \<Rightarrow> Joint list \<Rightarrow> error + Joint list" where
  \<comment> \<open>returns the new content of the caller's list, which the source sorts in place\<close>
  "check_and_sort_joints arm joints =
     (if length joints \<noteq> JOINTS then Inl (YumiException (codepoints ''Invalid number of joints.''))
      else case check_joints arm joints of
        Inl e \<Rightarrow> Inl e
      | Inr _ \<Rightarrow> sort_joints joints)"

definition joints_to_str :: "(pyfloat \<Rightarrow> pyfloat) \<Rightarrow> Joint list \<Rightarrow> string" where
  \<comment> \<open>the first argument is \<open>math.degrees\<close>\<close>
  "joints_to_str degrees joints = iter_to_str (format_float 2) (map (\<lambda>j. degrees (jvalue j)) joints)"

definition goto_joints :: "(pyfloat \<Rightarrow> pyfloat) \<Rightarrow> YuMiArm \<Rightarrow> Joint list \<Rightarrow> responder
    \<Rightarrow> (error + unit) \<times> wire" where
  "goto_joints degrees arm joints resp =
     (case check_and_sort_joints arm joints of
        Inl e \<Rightarrow> (Inl e, [])
      | Inr sorted_joints \<Rightarrow>
          unit_result (request arm (construct_req goto_joints_c (joints_to_str degrees sorted_joints))
                         (Some (motion_timeout arm)) None resp))"

definition goto_joints_sync :: "(pyfloat \<Rightarrow> pyfloat) \<Rightarrow> YuMiArm \<Rightarrow> Joint list \<Rightarrow> responder
    \<Rightarrow> (error + unit) \<times> wire" where
  "goto_joints_sync degrees arm joints resp =
     (case check_and_sort_joints arm joints of
        Inl e \<Rightarrow> (Inl e, [])
      | Inr sorted_joints \<Rightarrow>
          unit_result (request arm (construct_req goto_joints_sync_c (joints_to_str degrees sorted_joints))
                         (Some (motion_timeout arm)) None resp))"

definition fk :: "(pyfloat \<Rightarrow> pyfloat) \<Rightarrow> (unicode \<Rightarrow> error + 'p) \<Rightarrow> YuMiArm \<Rightarrow> Joint list \<Rightarrow> responder
    \<Rightarrow> (error + 'p) \<times> wire" where
  \<comment> \<open>the second argument is \<open>message_to_pose\<close>, which parses floats and builds a Pose\<close>
  "fk degrees message_to_pose arm joints resp =
     (case check_and_sort_joints arm joints of
        Inl e \<Rightarrow> (Inl e, [])
      | Inr sorted_joints \<Rightarrow>
          (case request arm (construct_req fk_c (joints_to_str degrees sorted_joints)) None None resp of
             (Inl (YuMiControlException p r), w) \<Rightarrow> (Inl (KinematicsException (message r)), w)
           | (Inl e, w) \<Rightarrow> (Inl e, w)
           | (Inr res, w) \<Rightarrow>
               (case message_to_pose (message res) of
                  Inl (YuMiControlException p r) \<Rightarrow> (Inl (KinematicsException (message r)), w)
                | Inl e \<Rightarrow> (Inl e, w)
                | Inr pose \<Rightarrow> (Inr pose, w))))"

section \<open>Configuration commands: \<open>set_speed\<close>, \<open>set_zone\<close>, \<open>set_conf\<close>\<close>

fun floats_of_ints :: "int list \<Rightarrow> error + pyfloat list" where
  \<comment> \<open>ints on their way through a template with \<open>f\<close>: the first one beyond the doubles
      raises\<close>
  "floats_of_ints [] = Inr []"
| "floats_of_ints (n # ns) =
     (case float_of_int n of
        None \<Rightarrow> Inl OverflowError
      | Some x \<Rightarrow> (case floats_of_ints ns of Inl e \<Rightarrow> Inl e | Inr xs \<Rightarrow> Inr (x # xs)))"

definition set_speed :: "YuMiArm \<Rightarrow> int \<times> int \<times> int \<times> int \<Rightarrow> responder \<Rightarrow> (error + unit) \<times> wire" where
  \<comment> \<open>the speed numbers are Python ints, formatted as floats by \<open>"{:.2f}"\<close>\<close>
  "set_speed arm speed_data resp =
     (case speed_data of (a, b, c, d) \<Rightarrow>
        (case floats_of_ints [a, b, c, d] of
           Inl e \<Rightarrow> (Inl e, [])
         | Inr values \<Rightarrow>
             (let body = iter_to_str (format_float 2) values;
                  rq = construct_req set_speed_c body
              in unit_result (request arm rq None None resp))))"

definition set_zone :: "YuMiArm \<Rightarrow> int \<times> (pyfloat \<times> pyfloat \<times> pyfloat) \<Rightarrow> responder
    \<Rightarrow> (error + unit) \<times> wire" where
  \<comment> \<open>the dict \<open>zone_data\<close> has the keys \<open>point_motion\<close>, an int, and \<open>values\<close>;
      the template \<open>"{:2f}"\<close> is a width of 2 and the default six decimals\<close>
  "set_zone arm zone_data resp =
     (case zone_data of (pm, (v1, v2, v3)) \<Rightarrow>
        (case floats_of_ints [pm] of
           Inl e \<Rightarrow> (Inl e, [])
         | Inr pms \<Rightarrow>
             (let body = iter_to_str (format_float 6) (pms @ [v1, v2, v3]);
                  rq = construct_req set_zone_c body
              in unit_result (request arm rq None None resp))))"

definition set_conf :: "YuMiArm \<Rightarrow> int list \<Rightarrow> responder \<Rightarrow> (error + unit) \<times> wire" where
  "set_conf arm conf_data resp =
     (let body = iter_to_str format_d conf_data;
          rq = construct_req set_conf_c body
      in unit_result (request arm rq None None resp))"

section \<open>Gripper commands\<close>

definition no_wait_flag :: "bool \<Rightarrow> pyfloat list" where
  \<comment> \<open>\<open>([0] if no_wait else [])\<close>; the int 0 is formatted as the float 0.0\<close>
  "no_wait_flag no_wait = (if no_wait then [Finite 0] else [])"

definition open_gripper :: "YuMiArm \<Rightarrow> pyfloat option \<Rightarrow> pyfloat option \<Rightarrow> bool \<Rightarrow> responder
    \<Rightarrow> (error + unit) \<times> wire" where
  "open_gripper arm force width no_wait resp =
     (let force = (case force of None \<Rightarrow> MAX_GRIPPER_FORCE | Some f \<Rightarrow> f) in
      case width of
        Some w \<Rightarrow>
          (let width = fmul METERS_TO_MM w;
               body = iter_to_str (format_float 1) ([force, width] @ no_wait_flag no_wait);
               rq = construct_req open_gripper_c body
           in unit_result (request arm rq (Some (motion_timeout arm)) None resp))
      | None \<Rightarrow>
          (let body = iter_to_str (format_float 1) ([force] @ no_wait_flag no_wait);
               rq = construct_req open_gripper_c body
           in unit_result (request arm rq (Some (motion_timeout arm)) None resp)))"

definition close_gripper :: "(pyfloat \<Rightarrow> string) \<Rightarrow> YuMiArm \<Rightarrow> pyfloat \<Rightarrow> pyfloat \<Rightarrow> bool \<Rightarrow> responder
    \<Rightarrow> (error + unit) \<times> wire" where
  \<comment> \<open>the first argument is \<open>str\<close> on a float, which \<open>"{}".format\<close> applies to the
      bound 0.02 and to the rejected value; the bounds 0 and 20 are ints\<close>
  "close_gripper float_str arm force width no_wait resp =
     (if flt force (Finite 0) \<or> flt MAX_GRIPPER_FORCE force then
        (Inl (ValueError (''Gripper force can only be between 0 and 20. Got '' @ float_str force @ ''.'')), [])
      else if flt width (Finite 0) \<or> flt MAX_GRIPPER_WIDTH width then
        (Inl (ValueError (''Gripper width can only be between 0 and '' @ float_str MAX_GRIPPER_WIDTH
                @ ''. Got '' @ float_str width @ ''.'')), [])
      else
        (let width = fmul METERS_TO_MM width;
             body = iter_to_str (format_float 1) ([force, width] @ no_wait_flag no_wait);
             rq = construct_req close_gripper_c body
         in unit_result (request arm rq (Some (motion_timeout arm)) None resp)))"

definition move_gripper :: "YuMiArm \<Rightarrow> pyfloat \<Rightarrow> bool \<Rightarrow> responder \<Rightarrow> (error + unit) \<times> wire" where
  "move_gripper arm width no_wait resp =
     (let lst = [fmul width METERS_TO_MM] @ no_wait_flag no_wait;
          body = iter_to_str (format_float 1) lst;
          rq = construct_req move_gripper_c body
      in unit_result (request arm rq (Some (motion_timeout arm)) None resp))"

section \<open>Poses: the objects, the wire body and the operations that take a pose\<close>

text \<open>
  A Pose is an object that refers to a Position object and an Orientation object; the
  caller and the callee share them.  The heap holds the objects, an address is an index.
  \<open>copy.deepcopy\<close> allocates a new Pose with a new Position and a new Orientation.

  Modelled from the spec: the classes Pose, Position and Orientation are not part of the
  sources; the spec (4.7) says that a Position supports an in-place scalar multiply, which
  \<open>position_imul\<close> is: it overwrites the object, each coordinate with its float product,
  and returns the same object.  The floats
  that \<open>quaternion.as_float_array(pose.orientation.as_quaternion())\<close> yields are a
  parameter of the operations.
\<close>

datatype Position = Position (px: pyfloat) (py: pyfloat) (pz: pyfloat)

datatype Orientation = Orientation (qx: pyfloat) (qy: pyfloat) (qz: pyfloat) (qw: pyfloat)

datatype Pose = Pose (position: nat) (orientation: nat)

record heap =
  positions :: "Position list"
  orientations :: "Orientation list"
  poses :: "Pose list"

definition valid_pose :: "heap \<Rightarrow> nat \<Rightarrow> bool" where
  \<comment> \<open>a reference to a Pose whose parts exist\<close>
  "valid_pose h p = (p < length (poses h) \<and> position (poses h ! p) < length (positions h)
     \<and> orientation (poses h ! p) < length (orientations h))"

definition pose_value :: "heap \<Rightarrow> nat \<Rightarrow> Position \<times> Orientation" where
  "pose_value h p = (positions h ! position (poses h ! p), orientations h ! orientation (poses h ! p))"

definition deepcopy :: "heap \<Rightarrow> nat \<Rightarrow> heap \<times> nat" where
  "deepcopy h p =
     (let a = length (positions h); b = length (orientations h); c = length (poses h)
      in (h\<lparr>positions := positions h @ [positions h ! position (poses h ! p)],
            orientations := orientations h @ [orientations h ! orientation (poses h ! p)],
            poses := poses h @ [Pose a b]\<rparr>, c))"

definition position_imul :: "heap \<Rightarrow> nat \<Rightarrow> pyfloat \<Rightarrow> heap \<times> nat" where
  "position_imul h a k =
     (case positions h ! a of Position vx vy vz \<Rightarrow>
        (h\<lparr>positions := (positions h)[a := Position (fmul vx k) (fmul vy k) (fmul vz k)]\<rparr>, a))"

definition set_position :: "heap \<Rightarrow> nat \<Rightarrow> nat \<Rightarrow> heap" where
  \<comment> \<open>the attribute assignment that ends \<open>pose.position *= k\<close>\<close>
  "set_position h p a = h\<lparr>poses := (poses h)[p := Pose a (orientation (poses h ! p))]\<rparr>"

definition position_list :: "Position \<Rightarrow> pyfloat list" where
  "position_list v = [px v, py v, pz v]"

definition get_pose_body :: "(Orientation \<Rightarrow> pyfloat list) \<Rightarrow> heap \<Rightarrow> nat \<Rightarrow> string \<times> heap" where
  \<comment> \<open>\<open>_get_pose_body\<close>; from its first line on, \<open>pose\<close> is the copy\<close>
  "get_pose_body as_float_array h pose =
     (let (h1, pose) = deepcopy h pose;
          (h2, a) = position_imul h1 (position (poses h1 ! pose)) METERS_TO_MM;
          h3 = set_position h2 pose a;
          body = iter_to_str (format_float 2) (position_list (positions h3 ! position (poses h3 ! pose)))
               @ iter_to_str (format_float 5) (as_float_array (orientations h3 ! orientation (poses h3 ! pose)))
      in (body, h3))"

definition get_pose :: "(unicode \<Rightarrow> error + 'v) \<Rightarrow> YuMiArm \<Rightarrow> responder \<Rightarrow> (error + 'v) \<times> wire" where
  \<comment> \<open>the first argument is \<open>message_to_pose\<close>\<close>
  "get_pose message_to_pose arm resp =
     (case request arm (construct_req get_pose_c []) None (Some (poses_socket arm)) resp of
        (Inl e, w) \<Rightarrow> (Inl e, w)
      | (Inr res, w) \<Rightarrow> (message_to_pose (message res), w))"

definition goto_pose_delta :: "YuMiArm \<Rightarrow> pyfloat list \<Rightarrow> pyfloat list option \<Rightarrow> responder
    \<Rightarrow> (error + unit) \<times> wire" where
  "goto_pose_delta arm translation rotation resp =
     (let translation = map (\<lambda>val. fmul val METERS_TO_MM) translation;
          translation_str = iter_to_str (format_float 1) translation;
          rotation_str = (case rotation of None \<Rightarrow> [] | Some r \<Rightarrow> iter_to_str (format_float 5) r);
          body = translation_str @ rotation_str;
          rq = construct_req goto_pose_delta_c body
      in unit_result (request arm rq (Some (motion_timeout arm)) None resp))"

definition goto_pose :: "(Orientation \<Rightarrow> pyfloat list) \<Rightarrow> (unicode \<Rightarrow> error + Position \<times> Orientation)
    \<Rightarrow> (Position \<times> Orientation \<Rightarrow> Position \<times> Orientation \<Rightarrow> pyfloat list \<times> pyfloat list)
    \<Rightarrow> YuMiArm \<Rightarrow> heap \<Rightarrow> nat \<Rightarrow> bool \<Rightarrow> bool \<Rightarrow> responder \<Rightarrow> ((error + unit) \<times> wire) \<times> heap" where
  \<comment> \<open>Modelled from the spec: the third argument is the delta of 4.7, from the current pose
      and the target to a translation and its Euler angles in degrees; it reads the values
      of the two poses and builds new objects, which are not kept\<close>
  "goto_pose as_float_array message_to_pose delta arm h pose linear_path relative resp =
     (if relative then
        ((case get_pose message_to_pose arm resp of
            (Inl e, w) \<Rightarrow> (Inl e, w)
          | (Inr cur_pose, w) \<Rightarrow>
              (case delta cur_pose (pose_value h pose) of (translation, rot) \<Rightarrow>
                 (case goto_pose_delta arm translation (Some rot) resp of
                    (r, w') \<Rightarrow> (r, w @ w')))),
         h)
      else
        (let (body, h') = get_pose_body as_float_array h pose;
             cmd = (if linear_path then goto_pose_linear else goto_pose_c);
             rq = construct_req cmd body
         in (unit_result (request arm rq (Some (motion_timeout arm)) None resp), h')))"

definition goto_pose_sync :: "(Orientation \<Rightarrow> pyfloat list) \<Rightarrow> YuMiArm \<Rightarrow> heap \<Rightarrow> nat \<Rightarrow> responder
    \<Rightarrow> ((error + unit) \<times> wire) \<times> heap" where
  "goto_pose_sync as_float_array arm h pose resp =
     (let (body, h') = get_pose_body as_float_array h pose;
          rq = construct_req goto_pose_sync_c body
      in (unit_result (request arm rq (Some (motion_timeout arm)) None resp), h'))"

definition set_tool :: "(Orientation \<Rightarrow> pyfloat list) \<Rightarrow> YuMiArm \<Rightarrow> heap \<Rightarrow> nat \<Rightarrow> responder
    \<Rightarrow> ((error + unit) \<times> wire) \<times> heap" where
  "set_tool as_float_array arm h pose resp =
     (let (body, h') = get_pose_body as_float_array h pose;
          rq = construct_req set_tool_c body
      in (unit_result (request arm rq None None resp), h'))"

definition buffer_add_single :: "(Orientation \<Rightarrow> pyfloat list) \<Rightarrow> YuMiArm \<Rightarrow> heap \<Rightarrow> nat \<Rightarrow> responder
    \<Rightarrow> ((error + unit) \<times> wire) \<times> heap" where
  "buffer_add_single as_float_array arm h pose resp =
     (let (body, h') = get_pose_body as_float_array h pose;
          rq = construct_req buffer_add body
      in (unit_result (request arm rq None None resp), h'))"

definition is_pose_reachable :: "(Orientation \<Rightarrow> pyfloat list) \<Rightarrow> YuMiArm \<Rightarrow> heap \<Rightarrow> nat \<Rightarrow> responder
    \<Rightarrow> ((error + bool) \<times> wire) \<times> heap" where
  "is_pose_reachable as_float_array arm h pose resp =
     (let (body, h') = get_pose_body as_float_array h pose;
          rq = construct_req is_pose_reachable_c body
      in ((case request arm rq None None resp of
             (Inl e, w) \<Rightarrow> (Inl e, w)
           | (Inr res, w) \<Rightarrow>
               (case unicode_int (message res) of
                  None \<Rightarrow> (Inl (ValueError ''invalid literal for int()''), w)
                | Some v \<Rightarrow> (Inr (v \<noteq> 0), w))),
          h'))"

definition response_to_joints :: "(unicode \<Rightarrow> pyfloat option) \<Rightarrow> (pyfloat \<Rightarrow> pyfloat) \<Rightarrow> YuMiArm \<Rightarrow> RawResponse
    \<Rightarrow> error + Joint list" where
  \<comment> \<open>\<open>_response_to_joints\<close>; the first two arguments are \<open>float\<close> on a string
      (\<open>None\<close> is the ValueError) and \<open>math.radians\<close>\<close>
  "response_to_joints py_float radians arm res =
     (let tokens = unicode_split (message res) in
      if length tokens \<noteq> JOINTS then
        Inl (YumiException (codepoints (''Invalid format for states! Got: '' @ [CHR 0x27]) @ message res
               @ codepoints ([CHR 0x27] @ ''.'')))
      else if list_ex (\<lambda>t. py_float t = None) tokens then
        Inl (ValueError ''could not convert string to float'')
      else case name arm of
        [] \<Rightarrow> Inl AssertionError
      | c # _ \<Rightarrow>
          Inr (map (\<lambda>(i, t). Joint (''yumi_joint_'' @ format_d (int i + 1) @ ''_'' @ [c]) (radians (the (py_float t))))
                 (enumerate 0 tokens)))"

definition ik :: "(Orientation \<Rightarrow> pyfloat list) \<Rightarrow> (unicode \<Rightarrow> pyfloat option) \<Rightarrow> (pyfloat \<Rightarrow> pyfloat) \<Rightarrow> YuMiArm
    \<Rightarrow> heap \<Rightarrow> nat \<Rightarrow> responder \<Rightarrow> ((error + Joint list) \<times> wire) \<times> heap" where
  "ik as_float_array py_float radians arm h pose resp =
     (let (body, h') = get_pose_body as_float_array h pose;
          rq = construct_req ik_c body
      in ((case request arm rq None None resp of
             (Inl (YuMiControlException p r), w) \<Rightarrow> (Inl (KinematicsException (message r)), w)
           | (Inl e, w) \<Rightarrow> (Inl e, w)
           | (Inr res, w) \<Rightarrow> (response_to_joints py_float radians arm res, w)),
          h'))"

section \<open>The coordinator: \<open>YuMi\<close>\<close>

text \<open>
  The coordinator is followed through what it does to its collaborators, in order: the
  motion mutex, the executor it submits tasks to, the cancellation event of the
  supervisor, the RWS client, the sockets of its arms and the calls it makes on an arm in
  its own thread.  What a submitted task or a call on an arm does on the wire is the arm
  session's, above.  The environment says how each task ends, in which order the tasks
  end, what the supervisor does by itself, and whether an RWS call or a connection fails.

  Modelled from the spec: \<open>tr.make_pose_rel\<close> (the pose in the base frame, 4.7) is a
  parameter, and \<open>Pose()\<close> is the identity pose that 4.6 names in the default
  configuration; the motion mutex \<open>_move_lock\<close> is created by the base class, outside
  the sources, and is the exclusive mutex of 5.
\<close>

datatype YumiArms = LEFT | RIGHT

datatype arm_call =
    SetSpeed "int \<times> int \<times> int \<times> int"
  | SetZone "int \<times> (pyfloat \<times> pyfloat \<times> pyfloat)"
  | SetTool "Position \<times> Orientation"
  | SetConf "int list"
  | GotoPose "Position \<times> Orientation" bool
  | GotoPoseSync "Position \<times> Orientation"
  | GotoJoints "Joint list"
  | GotoJointsSync "Joint list"

datatype task = Supervisor | ArmTask YumiArms arm_call

datatype rws_call = StopRapid | ResetPP | StartRapid

datatype event =
    Acquire
  | Release
  | Submit task
  | Call YumiArms arm_call
  | EvtSet
  | Rws rws_call
  | Close nat
  | Connect nat nat

record YuMi =
  speed :: "int option"
  max_tcp_speed :: pyfloat
  robot_pose :: "Position \<times> Orientation"
  left :: YuMiArm
  right :: YuMiArm
  sockets_created :: nat
  open_sockets :: "nat list"
  move_lock :: bool
  trace :: "event list"

record world =
  task_result :: "task \<Rightarrow> error + unit"
  supervisor :: "error option"
  completion_order :: "task list"
  rws_result :: "rws_call \<Rightarrow> error option"
  connect_result :: "nat \<Rightarrow> error option"
  make_pose_rel :: "Position \<times> Orientation \<Rightarrow> Position \<times> Orientation \<Rightarrow> Position \<times> Orientation"

text \<open>
  The socket objects are numbered in the order of their creation: \<open>sockets_created\<close>
  counts them, and \<open>open_sockets\<close> lists those that are open.  \<open>supervisor\<close> is what
  \<open>block_while_running\<close> does when nobody cancels it: it raises (ProgramStopped when a task stops, another error when a request to
  the controller fails) or, with \<open>None\<close>, it runs until the event is set and then returns.
  \<open>completion_order\<close> lists the tasks in the order in which they end by themselves; an
  arm task that is not listed does not end in time.
\<close>

definition emit :: "event \<Rightarrow> YuMi \<Rightarrow> YuMi" where
  "emit ev r = r\<lparr>trace := trace r @ [ev]\<rparr>"

definition is_YumiException :: "error \<Rightarrow> bool" where
  \<comment> \<open>the class YumiException and its subclasses\<close>
  "is_YumiException err =
     (case err of YumiException _ \<Rightarrow> True | YuMiCommException _ \<Rightarrow> True
      | YuMiControlException _ _ \<Rightarrow> True | _ \<Rightarrow> False)"

definition is_RwsException :: "error \<Rightarrow> bool" where
  \<comment> \<open>the class RwsException and its subclass ProgramStopped\<close>
  "is_RwsException err = (case err of RwsException _ \<Rightarrow> True | ProgramStopped \<Rightarrow> True | _ \<Rightarrow> False)"

definition error_str :: "error \<Rightarrow> string" where
  \<comment> \<open>\<open>str(e)\<close> of an RWS error\<close>
  "error_str err = (case err of RwsException m \<Rightarrow> m | _ \<Rightarrow> [])"

definition arm_of :: "YumiArms \<Rightarrow> YuMi \<Rightarrow> YuMiArm" where
  "arm_of a r = (case a of LEFT \<Rightarrow> left r | RIGHT \<Rightarrow> right r)"

definition set_arm :: "YumiArms \<Rightarrow> YuMiArm \<Rightarrow> YuMi \<Rightarrow> YuMi" where
  "set_arm a arm r = (case a of LEFT \<Rightarrow> r\<lparr>left := arm\<rparr> | RIGHT \<Rightarrow> r\<lparr>right := arm\<rparr>)"

definition arm_by_name :: "string option \<Rightarrow> error + YumiArms" where
  \<comment> \<open>\<open>_arm_by_name\<close>, on the mapping of the names \<open>left\<close> and \<open>right\<close>\<close>
  "arm_by_name nm =
     (case nm of
        None \<Rightarrow> Inl (YumiException (codepoints ''Arm has to be specified.''))
      | Some n \<Rightarrow>
          if n = ''left'' then Inr LEFT
          else if n = ''right'' then Inr RIGHT
          else Inl (YumiException (codepoints ''Unknown arm name.'')))"

subsection \<open>Waiting for tasks\<close>

definition ends_by_itself :: "world \<Rightarrow> task \<Rightarrow> bool" where
  "ends_by_itself e t = (t \<noteq> Supervisor \<or> supervisor e \<noteq> None)"

definition outcome :: "world \<Rightarrow> task \<Rightarrow> error + unit" where
  \<comment> \<open>\<open>f.result()\<close> of a task that ended by itself\<close>
  "outcome e t =
     (case t of
        Supervisor \<Rightarrow> (case supervisor e of None \<Rightarrow> Inr () | Some err \<Rightarrow> Inl err)
      | ArmTask a c \<Rightarrow> task_result e t)"

definition as_completed :: "world \<Rightarrow> task list \<Rightarrow> task list" where
  \<comment> \<open>the futures that \<open>cf.as_completed\<close> yields while nothing is cancelled, in order\<close>
  "as_completed e futures =
     filter (\<lambda>t. t \<in> set futures \<and> ends_by_itself e t) (remdups (completion_order e))"

fun first_error :: "world \<Rightarrow> task list \<Rightarrow> error option" where
  \<comment> \<open>\<open>for f in ...: f.result()\<close>: the first exception stops the loop\<close>
  "first_error e [] = None"
| "first_error e (t # ts) = (case outcome e t of Inl err \<Rightarrow> Some err | Inr _ \<Rightarrow> first_error e ts)"

definition wait_for_all :: "world \<Rightarrow> task list \<Rightarrow> string \<Rightarrow> error + unit" where
  \<comment> \<open>a future that has not ended at the timeout is a \<open>cf.TimeoutError\<close>, caught here\<close>
  "wait_for_all e futures timeout_error_message =
     (case first_error e (as_completed e futures) of
        Some err \<Rightarrow> Inl err
      | None \<Rightarrow>
          if list_all (\<lambda>t. t \<in> set (as_completed e futures)) futures then Inr ()
          else Inl (YuMiCommException timeout_error_message))"

definition submit_to_arms :: "arm_call \<Rightarrow> YuMi \<Rightarrow> task list \<times> YuMi" where
  \<comment> \<open>\<open>[self._executor.submit(arm.op, arg) for arm in self.arms]\<close>\<close>
  "submit_to_arms c r =
     ([ArmTask LEFT c, ArmTask RIGHT c], emit (Submit (ArmTask RIGHT c)) (emit (Submit (ArmTask LEFT c)) r))"

subsection \<open>Speed, zone, tool and the default configuration\<close>

definition construct_speed_data :: "'a \<Rightarrow> 'a \<Rightarrow> 'a \<times> 'a \<times> 'a \<times> 'a" where
  "construct_speed_data tra rot = (tra, rot, tra, rot)"

definition get_v :: "int \<Rightarrow> int \<times> int \<times> int \<times> int" where
  "get_v n = construct_speed_data n 500"

definition set_v :: "world \<Rightarrow> int \<Rightarrow> YuMi \<Rightarrow> (error + unit) \<times> YuMi" where
  \<comment> \<open>as in the source, nothing here assigns \<open>_speed\<close>\<close>
  "set_v e n r =
     (if speed r \<noteq> None \<and> speed r = Some n then (Inr (), r)
      else
        (let speed_data = get_v n;
             (futures, r1) = submit_to_arms (SetSpeed speed_data) r
         in (wait_for_all e futures ''Failed to set speed.'', r1)))"

definition ZONE_VALUES :: "(string \<times> (pyfloat \<times> pyfloat \<times> pyfloat)) list" where
  \<comment> \<open>the ints of the table are written as the floats they are formatted as\<close>
  "ZONE_VALUES =
     [(''fine'', (Finite 0, Finite 0, Finite 0)),
      (''z0'', (round_double (3 / 10), round_double (3 / 10), round_double (3 / 100))),
      (''z1'', (Finite 1, Finite 1, round_double (1 / 10))),
      (''z5'', (Finite 5, Finite 8, round_double (8 / 10))),
      (''z10'', (Finite 10, Finite 15, Finite (15 / 10))),
      (''z15'', (Finite 15, Finite 23, round_double (23 / 10))),
      (''z20'', (Finite 20, Finite 30, Finite 3)),
      (''z30'', (Finite 30, Finite 45, Finite (45 / 10))),
      (''z50'', (Finite 50, Finite 75, Finite (75 / 10))),
      (''z100'', (Finite 100, Finite 150, Finite 15)),
      (''z200'', (Finite 200, Finite 300, Finite 30))]"

definition get_z :: "string \<Rightarrow> error + int \<times> (pyfloat \<times> pyfloat \<times> pyfloat)" where
  "get_z nm =
     (case map_of ZONE_VALUES nm of
        None \<Rightarrow> Inl (KeyError nm)
      | Some values \<Rightarrow> Inr (if nm = ''fine'' then 1 else 0, values))"

definition set_z :: "world \<Rightarrow> string \<Rightarrow> YuMi \<Rightarrow> (error + unit) \<times> YuMi" where
  "set_z e nm r =
     (case get_z nm of
        Inl err \<Rightarrow> (Inl err, r)
      | Inr zone_data \<Rightarrow>
          (let (futures, r1) = submit_to_arms (SetZone zone_data) r
           in (wait_for_all e futures ''Failed set zone data.'', r1)))"

definition set_tool_both :: "world \<Rightarrow> Position \<times> Orientation \<Rightarrow> YuMi \<Rightarrow> (error + unit) \<times> YuMi" where
  \<comment> \<open>\<open>YuMi.set_tool\<close>\<close>
  "set_tool_both e p r =
     (let (futures, r1) = submit_to_arms (SetTool p) r
      in (wait_for_all e futures ''Failed to set tool.'', r1))"

definition identity_pose :: "Position \<times> Orientation" where
  "identity_pose = (Position (Finite 0) (Finite 0) (Finite 0), Orientation (Finite 0) (Finite 0) (Finite 0) (Finite 1))"

definition call_arm :: "world \<Rightarrow> YumiArms \<Rightarrow> arm_call \<Rightarrow> YuMi \<Rightarrow> (error + unit) \<times> YuMi" where
  \<comment> \<open>a call on an arm in the thread of the caller\<close>
  "call_arm e a c r = (task_result e (ArmTask a c), emit (Call a c) r)"

definition default_configuration :: "world \<Rightarrow> YuMi \<Rightarrow> (error + unit) \<times> YuMi" where
  "default_configuration e r =
     (case set_tool_both e identity_pose r of
        (Inl err, r1) \<Rightarrow> (Inl err, r1)
      | (Inr _, r1) \<Rightarrow>
          (case set_z e ''fine'' r1 of
             (Inl err, r2) \<Rightarrow> (Inl err, r2)
           | (Inr _, r2) \<Rightarrow>
               (case call_arm e LEFT (SetConf [0, 0, 0, 4]) r2 of
                  (Inl err, r3) \<Rightarrow> (Inl err, r3)
                | (Inr _, r3) \<Rightarrow> call_arm e RIGHT (SetConf [0, 0, 0, 4]) r3)))"

subsection \<open>Reconnecting and recovering\<close>

definition close_socket :: "nat \<Rightarrow> YuMi \<Rightarrow> YuMi" where
  \<comment> \<open>\<open>YumiSocket.close\<close>\<close>
  "close_socket s r = emit (Close s) (r\<lparr>open_sockets := removeAll s (open_sockets r)\<rparr>)"

definition terminate :: "YumiArms \<Rightarrow> YuMi \<Rightarrow> YuMi" where
  \<comment> \<open>\<open>for s in self._sockets: s.close()\<close>\<close>
  "terminate a r = foldl (\<lambda>r' s. close_socket s r') r (sockets (arm_of a r))"

definition new_socket :: "world \<Rightarrow> nat \<Rightarrow> YuMi \<Rightarrow> (error + nat) \<times> YuMi" where
  \<comment> \<open>\<open>YumiSocket(ip, port, bufsize, timeout)\<close>: the new object, connected, or the error\<close>
  "new_socket e prt r =
     (case connect_result e prt of
        Some err \<Rightarrow> (Inl err, r)
      | None \<Rightarrow>
          (Inr (sockets_created r),
           emit (Connect (sockets_created r) prt)
             (r\<lparr>sockets_created := sockets_created r + 1,
                open_sockets := open_sockets r @ [sockets_created r]\<rparr>)))"

definition reconnect :: "world \<Rightarrow> YumiArms \<Rightarrow> YuMi \<Rightarrow> (error + unit) \<times> YuMi" where
  \<comment> \<open>as in the source, \<open>_sockets\<close> is not assigned here: it keeps the sockets of \<open>__init__\<close>\<close>
  "reconnect e a r =
     (let r0 = terminate a r in
      case new_socket e (port (arm_of a r0)) r0 of
        (Inl err, r1) \<Rightarrow> (Inl err, r1)
      | (Inr s1, r1) \<Rightarrow>
          (let r1 = set_arm a ((arm_of a r1)\<lparr>main_socket := s1\<rparr>) r1 in
           case new_socket e (port (arm_of a r1) + 2) r1 of
             (Inl err, r2) \<Rightarrow> (Inl err, r2)
           | (Inr s2, r2) \<Rightarrow>
               (let r2 = set_arm a ((arm_of a r2)\<lparr>poses_socket := s2\<rparr>) r2 in
                case new_socket e (port (arm_of a r2) + 4) r2 of
                  (Inl err, r3) \<Rightarrow> (Inl err, r3)
                | (Inr s3, r3) \<Rightarrow> (Inr (), set_arm a ((arm_of a r3)\<lparr>joints_socket := s3\<rparr>) r3))))"

definition rws_do :: "world \<Rightarrow> rws_call \<Rightarrow> YuMi \<Rightarrow> error option \<times> YuMi" where
  "rws_do e c r = (rws_result e c, emit (Rws c) r)"

definition escaping :: "error option \<Rightarrow> error option" where
  \<comment> \<open>\<open>try: ... except RwsException: pass\<close>: the error that is not swallowed\<close>
  "escaping raised = (case raised of None \<Rightarrow> None | Some err \<Rightarrow> if is_RwsException err then None else Some err)"

definition recover :: "world \<Rightarrow> YuMi \<Rightarrow> (error + unit) \<times> YuMi" where
  "recover e r =
     (case rws_do e StopRapid r of (stop, r1) \<Rightarrow>
        (case escaping stop of
           Some err \<Rightarrow> (Inl err, r1)
         | None \<Rightarrow>
             (case rws_do e ResetPP r1 of (reset, r2) \<Rightarrow>
                (case escaping reset of
                   Some err \<Rightarrow> (Inl err, r2)
                 | None \<Rightarrow>
                     (case rws_do e StartRapid r2 of
                        (Some err, r3) \<Rightarrow>
                          if is_RwsException err then
                            (Inl (YumiException (codepoints (''Failed to recover from stopped program. '' @ error_str err))), r3)
                          else (Inl err, r3)
                      | (None, r3) \<Rightarrow>
                          (case reconnect e LEFT r3 of
                             (Inl err, r4) \<Rightarrow> (Inl err, r4)
                           | (Inr _, r4) \<Rightarrow>
                               (case reconnect e RIGHT r4 of
                                  (Inl err, r5) \<Rightarrow> (Inl err, r5)
                                | (Inr _, r5) \<Rightarrow>
                                    (case default_configuration e r5 of
                                       (Inl err, r6) \<Rightarrow> (Inl err, r6)
                                     | (Inr _, r6) \<Rightarrow> (Inr (), r6\<lparr>speed := None\<rparr>)))))))))"

subsection \<open>Motions\<close>

definition with_move_lock :: "(YuMi \<Rightarrow> (error + unit) option \<times> YuMi) \<Rightarrow> YuMi
    \<Rightarrow> (error + unit) option \<times> YuMi" where
  \<comment> \<open>\<open>with self._move_lock:\<close>; the result \<open>None\<close> is a call that does not return: the
      mutex is taken already, or the body does not return\<close>
  "with_move_lock body r =
     (if move_lock r then (None, r)
      else case body (emit Acquire (r\<lparr>move_lock := True\<rparr>)) of
        (None, r') \<Rightarrow> (None, r')
      | (Some res, r') \<Rightarrow> (Some res, emit Release (r'\<lparr>move_lock := False\<rparr>)))"

definition on_program_stopped :: "world \<Rightarrow> YuMi \<Rightarrow> (error + unit) \<times> YuMi" where
  \<comment> \<open>\<open>except ProgramStopped: self.recover(); raise YumiException("Impossible motion.")\<close>\<close>
  "on_program_stopped e r =
     (case recover e r of
        (Inl err, r') \<Rightarrow> (Inl err, r')
      | (Inr _, r') \<Rightarrow> (Inl (YumiException (codepoints ''Impossible motion.'')), r'))"

definition next_completed :: "world \<Rightarrow> task list \<Rightarrow> bool \<Rightarrow> (task \<times> (error + unit)) option" where
  \<comment> \<open>the next future of a wait without timeout: one that ends by itself, or the
      supervisor once the event is set; \<open>None\<close> when no pending future ever ends\<close>
  "next_completed e pending evt_set =
     (case as_completed e pending of
        t # _ \<Rightarrow> Some (t, outcome e t)
      | [] \<Rightarrow> if evt_set \<and> Supervisor \<in> set pending then Some (Supervisor, Inr ()) else None)"

function wait_first :: "world \<Rightarrow> task list \<Rightarrow> bool \<Rightarrow> YuMi \<Rightarrow> (error + unit) option \<times> YuMi" where
  \<comment> \<open>the loop \<open>for f in cf.as_completed(futures)\<close> of \<open>move_to_pose\<close>\<close>
  "wait_first e pending evt_set r =
     (if pending = [] then (Some (Inr ()), r)
      else case next_completed e pending evt_set of
        None \<Rightarrow> (None, r)
      | Some (t, res) \<Rightarrow>
          (case res of
             Inr _ \<Rightarrow> wait_first e (remove1 t pending) True (emit EvtSet r)
           | Inl err \<Rightarrow>
               if is_YumiException err then (Some (Inl err), emit EvtSet r)
               else if err = ProgramStopped then
                 (case on_program_stopped e r of (x, r') \<Rightarrow> (Some x, r'))
               else (Some (Inl err), r)))"
  by pat_completeness auto
termination
proof (relation "measure (\<lambda>(e, pending, evt_set, r). length pending)")
  show "wf (measure (\<lambda>(e, pending, evt_set, r). length pending))"
    by simp
next
  fix e :: world and pending :: "task list" and evt_set :: bool and r :: YuMi
    and x2 :: "task \<times> (error + unit)" and x y and x2a :: unit
  assume "pending \<noteq> []" and n: "next_completed e pending evt_set = Some x2" and xy: "(x, y) = x2"
  have "x \<in> set pending"
  proof (cases "as_completed e pending")
    case Nil
    with n xy show ?thesis
      by (auto simp: next_completed_def split: if_splits)
  next
    case (Cons t ts)
    then have "t \<in> set (as_completed e pending)" by simp
    then have "t \<in> set pending" by (simp add: as_completed_def)
    with n xy Cons show ?thesis
      by (auto simp: next_completed_def)
  qed
  moreover from this have "0 < length pending"
    by (rule length_pos_if_in_set)
  ultimately show "((e, remove1 x pending, True, emit EvtSet r), e, pending, evt_set, r)
      \<in> measure (\<lambda>(e, pending, evt_set, r). length pending)"
    by (simp add: length_remove1)
qed

declare wait_first.simps [simp del]

definition speed_number :: "pyfloat \<Rightarrow> YuMi \<Rightarrow> error + int" where
  \<comment> \<open>\<open>int(speed * self.settings.max_tcp_speed * METERS_TO_MM)\<close>: two float products, the
      left one first, and the truncation, which raises when the product is not finite\<close>
  "speed_number spd r = int_of_float (fmul (fmul spd (max_tcp_speed r)) METERS_TO_MM)"

definition speed_in_range :: "pyfloat \<Rightarrow> bool" where
  \<comment> \<open>\<open>0.0 <= speed <= 1.0\<close>\<close>
  "speed_in_range spd = (fle (Finite 0) spd \<and> fle spd (Finite 1))"

definition move_to_pose :: "world \<Rightarrow> Position \<times> Orientation \<Rightarrow> pyfloat \<Rightarrow> bool \<Rightarrow> string option \<Rightarrow> YuMi
    \<Rightarrow> (error + unit) option \<times> YuMi" where
  "move_to_pose e target_pose spd linear_path arm_id r =
     (if \<not> speed_in_range spd then (Some (Inl AssertionError), r)
      else
        with_move_lock
          (\<lambda>r. case speed_number spd r of
                 Inl err \<Rightarrow> (Some (Inl err), r)
               | Inr n \<Rightarrow>
                   (case set_v e n r of
                      (Inl err, r1) \<Rightarrow> (Some (Inl err), r1)
                    | (Inr _, r1) \<Rightarrow>
                        (let r2 = emit (Submit Supervisor) r1 in
                         case arm_by_name arm_id of
                           Inl err \<Rightarrow> (Some (Inl err), r2)
                         | Inr a \<Rightarrow>
                             (let t = ArmTask a (GotoPose (make_pose_rel e (robot_pose r2) target_pose) linear_path);
                                  r3 = emit (Submit t) r2
                              in wait_first e [Supervisor, t] False r3))))
          r)"

definition wait_all_then :: "world \<Rightarrow> task list \<Rightarrow> YuMi \<Rightarrow> (error + unit) \<times> YuMi" where
  \<comment> \<open>the \<open>try\<close> statement of \<open>move_both_arms\<close>: the loop over
      \<open>cf.as_completed(futures, self._motion_timeout)\<close> with its handlers; the event is
      set after the loop only, and a timeout of the wait is not caught\<close>
  "wait_all_then e futures r =
     (case first_error e (as_completed e futures) of
        Some err \<Rightarrow>
          if is_YumiException err then (Inl err, emit EvtSet r)
          else if err = ProgramStopped then on_program_stopped e r
          else (Inl err, r)
      | None \<Rightarrow>
          if list_all (\<lambda>t. t \<in> set (as_completed e futures)) futures then (Inr (), emit EvtSet r)
          else (Inl TimeoutError, r))"

definition move_both_arms :: "world \<Rightarrow> Position \<times> Orientation \<Rightarrow> Position \<times> Orientation \<Rightarrow> pyfloat \<Rightarrow> YuMi
    \<Rightarrow> (error + unit) option \<times> YuMi" where
  "move_both_arms e left_pose right_pose spd r =
     (if \<not> speed_in_range spd then (Some (Inl AssertionError), r)
      else case speed_number spd r of
        Inl err \<Rightarrow> (Some (Inl err), r)
      | Inr n \<Rightarrow>
          (case set_v e n r of
             (Inl err, r1) \<Rightarrow> (Some (Inl err), r1)
           | (Inr _, r1) \<Rightarrow>
               with_move_lock
                 (\<lambda>r. let tl = ArmTask LEFT (GotoPoseSync (make_pose_rel e (robot_pose r) left_pose));
                          tr = ArmTask RIGHT (GotoPoseSync (make_pose_rel e (robot_pose r) right_pose));
                          r2 = emit (Submit tr) (emit (Submit tl) (emit (Submit Supervisor) r))
                      in case wait_all_then e [Supervisor, tl, tr] r2 of (x, r') \<Rightarrow> (Some x, r'))
                 r1))"

definition endswith :: "string \<Rightarrow> string \<Rightarrow> bool" where
  "endswith s suf = (length suf \<le> length s \<and> drop (length s - length suf) s = suf)"

definition goto_joints_sync_both :: "world \<Rightarrow> Joint list \<Rightarrow> Joint list \<Rightarrow> YuMi \<Rightarrow> (error + unit) \<times> YuMi" where
  \<comment> \<open>\<open>YuMi.goto_joints_sync\<close>\<close>
  "goto_joints_sync_both e left_joints right_joints r =
     (let tl = ArmTask LEFT (GotoJointsSync left_joints);
          tr = ArmTask RIGHT (GotoJointsSync right_joints);
          r1 = emit (Submit tr) (emit (Submit tl) r)
      in (wait_for_all e [tl, tr] ''Failed to move to joints in sync.'', r1))"

definition move_to_joints :: "world \<Rightarrow> Joint list \<Rightarrow> pyfloat \<Rightarrow> string option \<Rightarrow> YuMi
    \<Rightarrow> (error + unit) option \<times> YuMi" where
  "move_to_joints e target_joints spd arm_id r =
     (if \<not> speed_in_range spd then (Some (Inl AssertionError), r)
      else
        with_move_lock
          (\<lambda>r. case speed_number spd r of
                 Inl err \<Rightarrow> (Some (Inl err), r)
               | Inr n \<Rightarrow>
                   (case set_v e n r of
                      (Inl err, r1) \<Rightarrow> (Some (Inl err), r1)
                    | (Inr _, r1) \<Rightarrow>
                        (case arm_id of
                           None \<Rightarrow>
                             (let left_joints = filter (\<lambda>j. endswith (jname j) ''_l'') target_joints;
                                  right_joints = filter (\<lambda>j. endswith (jname j) ''_r'') target_joints
                              in case goto_joints_sync_both e left_joints right_joints r1 of
                                   (x, r2) \<Rightarrow> (Some x, r2))
                         | Some nm \<Rightarrow>
                             (case arm_by_name arm_id of
                                Inl err \<Rightarrow> (Some (Inl err), r1)
                              | Inr a \<Rightarrow>
                                  (case call_arm e a (GotoJoints target_joints) r1 of
                                     (x, r2) \<Rightarrow> (Some x, r2))))))
          r)"

section \<open>Notions used to state the properties\<close>

definition packet_of :: "YuMiArm \<Rightarrow> string \<Rightarrow> rat option \<Rightarrow> RequestPacket" where
  \<comment> \<open>the packet \<open>_request\<close> builds\<close>
  "packet_of arm rq tmo = RequestPacket rq (case tmo of None \<Rightarrow> comm_timeout arm | Some t \<Rightarrow> t) True"

definition socket_of :: "YuMiArm \<Rightarrow> nat option \<Rightarrow> nat" where
  \<comment> \<open>the socket \<open>_request\<close> uses\<close>
  "socket_of arm sock = (case sock of None \<Rightarrow> main_socket arm | Some s \<Rightarrow> s)"

definition joint_index :: "Joint \<Rightarrow> int" where
  \<comment> \<open>the sort key of a joint whose name has one\<close>
  "joint_index j = (case sort_index j of Inr i \<Rightarrow> i | Inl _ \<Rightarrow> 0)"

definition name_checked :: "YuMiArm \<Rightarrow> string \<Rightarrow> bool" where
  \<comment> \<open>what the validation establishes of one name\<close>
  "name_checked arm n =
     (case split_sep CHR ''_'' n of
        [a, b, i, s] \<Rightarrow>
          a = ''yumi'' \<and> b = ''joint'' \<and> s = take 1 (name arm) \<and> length s = 1
          \<and> (case py_int i of None \<Rightarrow> False | Some k \<Rightarrow> 0 < k \<and> k \<le> 7)
      | _ \<Rightarrow> False)"

definition joint_names :: "YuMiArm \<Rightarrow> error + string set" where
  \<comment> \<open>\<open>YuMiArm.joint_names\<close>\<close>
  "joint_names arm =
     (case name arm of
        [] \<Rightarrow> Inl AssertionError
      | c # _ \<Rightarrow> Inr (set (map (\<lambda>i. ''yumi_joint_'' @ format_d (int i + 1) @ ''_'' @ [c]) [0 ..< JOINTS])))"

definition clamp :: "pyfloat \<Rightarrow> pyfloat \<Rightarrow> pyfloat \<Rightarrow> pyfloat" where
  \<comment> \<open>\<open>max(lo, min(hi, v))\<close>\<close>
  "clamp lo hi v = (let m = (if flt hi v then hi else v) in if flt m lo then lo else m)"

definition claimed_gripper_body :: "pyfloat \<Rightarrow> pyfloat \<Rightarrow> bool \<Rightarrow> string" where
  \<comment> \<open>the body of a gripper command if force and width were clamped before conversion\<close>
  "claimed_gripper_body force width no_wait =
     iter_to_str (format_float 1)
       ([clamp (Finite 0) MAX_GRIPPER_FORCE force,
         fmul METERS_TO_MM (clamp (Finite 0) MAX_GRIPPER_WIDTH width)]
        @ no_wait_flag no_wait)"

definition unchanged :: "heap \<Rightarrow> heap \<Rightarrow> bool" where
  \<comment> \<open>every object of the first heap is in the second, with the same content\<close>
  "unchanged h h' = (take (length (positions h)) (positions h') = positions h
     \<and> take (length (orientations h)) (orientations h') = orientations h
     \<and> take (length (poses h)) (poses h') = poses h)"

definition new_events :: "YuMi \<Rightarrow> YuMi \<Rightarrow> event list" where
  \<comment> \<open>what a call added to the trace\<close>
  "new_events r r' = drop (length (trace r)) (trace r')"

definition lock_untouched :: "YuMi \<Rightarrow> YuMi \<Rightarrow> bool" where
  \<comment> \<open>from the first state to the second the trace grew, and the mutex was neither
      acquired nor released\<close>
  "lock_untouched r r' =
     (\<exists>evs. trace r' = trace r @ evs \<and> Acquire \<notin> set evs \<and> Release \<notin> set evs \<and> move_lock r' = move_lock r)"

fun lock_after :: "bool \<Rightarrow> event list \<Rightarrow> bool" where
  \<comment> \<open>whether the mutex is held after the events, given whether it was held before\<close>
  "lock_after held [] = held"
| "lock_after held (ev # evs) =
     lock_after (if ev = Acquire then True else if ev = Release then False else held) evs"

definition set_speed_events :: "int \<Rightarrow> YuMi \<Rightarrow> event list" where
  \<comment> \<open>what \<open>set_v(n)\<close> submits\<close>
  "set_speed_events n r =
     (if speed r = Some n then []
      else [Submit (ArmTask LEFT (SetSpeed (n, 500, n, 500))), Submit (ArmTask RIGHT (SetSpeed (n, 500, n, 500)))])"

section \<open>Concrete inputs\<close>

definition ex_left_arm :: YuMiArm where
  \<comment> \<open>the left arm as \<open>YuMi.__init__\<close> creates it\<close>
  "ex_left_arm = \<lparr>name = ''left'', ip = ''192.168.104.101'', port = 5000, bufsize = 4096,
     motion_timeout = 20, comm_timeout = 5, main_socket = 0, poses_socket = 1, joints_socket = 2,
     sockets = [0, 1, 2]\<rparr>"

definition ex_elbow_joints :: "Joint list" where
  "ex_elbow_joints = map (\<lambda>n. Joint n (Finite 0))
     [''yumi_joint_1_l'', ''elbow'', ''yumi_joint_3_l'', ''yumi_joint_4_l'', ''yumi_joint_5_l'',
      ''yumi_joint_6_l'', ''yumi_joint_7_l'']"

definition ex_dup_joints :: "Joint list" where
  "ex_dup_joints = replicate 7 (Joint ''yumi_joint_1_l'' (Finite 0))"

definition ex_mixed_joints :: "Joint list" where
  "ex_mixed_joints = map (\<lambda>n. Joint n (Finite 0))
     [''yumi_joint_3_l'', ''yumi_joint_1_l'', ''yumi_joint_01_l'', ''yumi_joint_7_l'', ''yumi_joint_5_l'',
      ''yumi_joint_6_l'', ''yumi_joint_2_l'']"

definition ex_ok :: responder where
  \<comment> \<open>a controller that answers every request with success\<close>
  "ex_ok = (\<lambda>s p. Received ''0 1'')"


definition ex_heap :: heap where
  "ex_heap = \<lparr>positions = [Position (round_double (3 / 10)) (Finite 0) (round_double (2 / 10))],
     orientations = [Orientation (Finite 0) (Finite 0) (Finite 0) (Finite 1)],
     poses = [Pose 0 0]\<rparr>"

definition wxyz :: "Orientation \<Rightarrow> pyfloat list" where
  "wxyz q = [qw q, qx q, qy q, qz q]"

definition ex_right_arm :: YuMiArm where
  \<comment> \<open>the right arm as \<open>YuMi.__init__\<close> creates it\<close>
  "ex_right_arm = \<lparr>name = ''right'', ip = ''192.168.104.101'', port = 5001, bufsize = 4096,
     motion_timeout = 20, comm_timeout = 5, main_socket = 3, poses_socket = 4, joints_socket = 5,
     sockets = [3, 4, 5]\<rparr>"

definition ex_robot :: YuMi where
  \<comment> \<open>the robot after \<open>YuMi.__init__\<close>, with the default settings\<close>
  "ex_robot = \<lparr>speed = None, max_tcp_speed = MAX_TCP_SPEED, robot_pose = identity_pose,
     left = ex_left_arm, right = ex_right_arm, sockets_created = 6,
     open_sockets = [0, 1, 2, 3, 4, 5], move_lock = False, trace = []\<rparr>"

definition ex_target :: "Position \<times> Orientation" where
  "ex_target = (Position (round_double (3 / 10)) (Finite 0) (round_double (2 / 10)),
     Orientation (Finite 0) (Finite 0) (Finite 0) (Finite 1))"

definition ex_world :: world where
  \<comment> \<open>every task succeeds, in the order of submission; the program keeps running\<close>
  "ex_world = \<lparr>task_result = (\<lambda>t. Inr ()), supervisor = None,
     completion_order =
       [ArmTask LEFT (SetSpeed (750, 500, 750, 500)), ArmTask RIGHT (SetSpeed (750, 500, 750, 500)),
        ArmTask LEFT (SetSpeed (2, 500, 2, 500)), ArmTask RIGHT (SetSpeed (2, 500, 2, 500)),
        ArmTask LEFT (GotoPose ex_target True)],
     rws_result = (\<lambda>c. None), connect_result = (\<lambda>p. None), make_pose_rel = (\<lambda>w p. p)\<rparr>"

definition ex_world_stopped :: world where
  \<comment> \<open>the program stops while the arms move: the supervisor is the first to end\<close>
  "ex_world_stopped = \<lparr>task_result = (\<lambda>t. Inr ()), supervisor = Some ProgramStopped,
     completion_order =
       [ArmTask LEFT (SetSpeed (750, 500, 750, 500)), ArmTask RIGHT (SetSpeed (750, 500, 750, 500)),
        ArmTask LEFT (SetTool identity_pose), ArmTask RIGHT (SetTool identity_pose),
        ArmTask LEFT (SetZone (1, (Finite 0, Finite 0, Finite 0))),
        ArmTask RIGHT (SetZone (1, (Finite 0, Finite 0, Finite 0))),
        Supervisor],
     rws_result = (\<lambda>c. None), connect_result = (\<lambda>p. None), make_pose_rel = (\<lambda>w p. p)\<rparr>"

definition ex_stopped_run :: "(error + unit) option \<times> YuMi" where
  "ex_stopped_run = move_to_pose ex_world_stopped ex_target (Finite (1 / 2)) True (Some ''left'') ex_robot"

definition ex_stopped_sync_run :: "(error + unit) option \<times> YuMi" where
  "ex_stopped_sync_run = move_both_arms ex_world_stopped ex_target ex_target (Finite (1 / 2)) ex_robot"

definition ex_recovered_once :: YuMi where
  "ex_recovered_once = snd (recover ex_world_stopped ex_robot)"

definition ex_recovered_twice :: YuMi where
  "ex_recovered_twice = snd (recover ex_world_stopped ex_recovered_once)"

definition ex_float_str :: "pyfloat \<Rightarrow> string" where
  \<comment> \<open>a stand-in for \<open>str\<close> on a float, right on 25.0 and such: one decimal\<close>
  "ex_float_str x = format_float 1 x"

definition ex_silent :: responder where
  \<comment> \<open>a controller that cannot be reached\<close>
  "ex_silent = (\<lambda>s p. SendError)"

section \<open>Properties of joint validation\<close>

lemma int_keeps_separators:
  \<comment> \<open>\<open>int\<close> does not skip the separators 28 to 31, which \<open>str.split()\<close> splits at\<close>
  "py_int [CHR 0x1F, CHR ''1''] = None" "split_ws [CHR ''a'', CHR 0x1F, CHR ''1''] = [''a'', ''1'']"
  "py_int '' 1 '' = Some 1" "py_int [CHR 0xA0, CHR ''7'', CHR 0x85] = Some 7"
  by code_simp+

lemma check_joints_append:
  "check_joints arm pre = Inr () \<Longrightarrow> check_joints arm (pre @ js) = check_joints arm js"
  by (induction pre) (auto split: sum.splits)

lemma check_joint_short:
  "length (split_sep CHR ''_'' (jname j)) < 3 \<Longrightarrow> check_joint arm j = Inl IndexError"
  by (simp add: check_joint_def Let_def)

text \<open>
  C10.  A list of seven joints whose first offending joint has a name of fewer than three
  underscore-separated parts is not rejected with the driver's own error: the index
  component \<open>arr[2]\<close> is read before the number of parts is looked at, so the validation
  ends in an IndexError, and \<open>goto_joints\<close>, \<open>goto_joints_sync\<close> and \<open>fk\<close> hand that
  error to their caller without having sent anything.
\<close>

theorem short_joint_name_raises_IndexError:
  assumes "length joints = JOINTS"
    and "joints = pre @ j # post"
    and "check_joints arm pre = Inr ()"
    and "length (split_sep CHR ''_'' (jname j)) < 3"
  shows "check_and_sort_joints arm joints = Inl IndexError
    \<and> goto_joints degrees arm joints resp = (Inl IndexError, [])
    \<and> goto_joints_sync degrees arm joints resp = (Inl IndexError, [])
    \<and> fk degrees message_to_pose arm joints resp = (Inl IndexError, [])"
proof -
  have "check_joints arm joints = Inl IndexError"
    using assms(2-4) by (simp add: check_joints_append check_joint_short)
  then have "check_and_sort_joints arm joints = Inl IndexError"
    using assms(1) by (simp add: check_and_sort_joints_def)
  then show ?thesis
    by (simp add: goto_joints_def goto_joints_sync_def fk_def)
qed

theorem short_joint_name_raises_IndexError_witness:
  "check_and_sort_joints ex_left_arm ex_elbow_joints = Inl IndexError
    \<and> goto_joints (\<lambda>x. x) ex_left_arm ex_elbow_joints ex_silent = (Inl IndexError, [])
    \<and> goto_joints_sync (\<lambda>x. x) ex_left_arm ex_elbow_joints ex_silent = (Inl IndexError, [])
    \<and> fk (\<lambda>x. x) (\<lambda>m. Inr m) ex_left_arm ex_elbow_joints ex_silent = (Inl IndexError, [])"
proof -
  have h1: "length ex_elbow_joints = JOINTS"
    by code_simp
  have h2: "ex_elbow_joints = [Joint ''yumi_joint_1_l'' (Finite 0)] @ Joint ''elbow'' (Finite 0) # drop 2 ex_elbow_joints"
    by code_simp
  have h3: "check_joints ex_left_arm [Joint ''yumi_joint_1_l'' (Finite 0)] = Inr ()"
    by code_simp
  have h4: "length (split_sep CHR ''_'' (jname (Joint ''elbow'' (Finite 0)))) < 3"
    by code_simp
  show ?thesis
    by (rule short_joint_name_raises_IndexError [OF h1 h2 h3 h4])
qed

lemma check_joint_ok:
  "check_joint arm j = Inr () \<Longrightarrow> name_checked arm (jname j) \<and> sort_index j = Inr (joint_index j)"
  unfolding check_joint_def name_checked_def sort_index_def joint_index_def Let_def JOINTS_def
  apply (cases "split_sep CHR ''_'' (jname j)")
   apply simp
  subgoal for a l1
    apply (cases l1)
     apply simp
    subgoal for b l2
      apply (cases l2)
       apply simp
      subgoal for i l3
        apply (cases l3)
         apply (simp split: option.splits)
        subgoal for s l4
          apply (cases l4)
           apply (auto split: option.splits list.splits if_splits)
          done
        done
      done
    done
  done

lemma check_joints_all:
  "check_joints arm js = Inr () \<Longrightarrow> j \<in> set js \<Longrightarrow> check_joint arm j = Inr ()"
  by (induction js) (auto split: sum.splits)

lemma sort_indices_ok:
  "(\<And>j. j \<in> set js \<Longrightarrow> sort_index j = Inr (joint_index j)) \<Longrightarrow>
     sort_indices js = Inr (map joint_index js)"
  by (induction js) auto

lemma insort_decorated:
  "(\<And>p. p \<in> set ps \<Longrightarrow> fst p = f (snd p)) \<Longrightarrow>
     map snd (insort_key fst (f x, x) ps) = insort_key f x (map snd ps)"
  by (induction ps) auto

lemma sort_decorated_inv:
  "p \<in> set (sort_key fst (zip (map f xs) xs)) \<Longrightarrow> fst p = f (snd p)"
  by (auto simp: in_set_zip)

lemma sort_decorated:
  "map snd (sort_key fst (zip (map f xs) xs)) = sort_key f xs"
proof (induction xs)
  case Nil
  then show ?case by simp
next
  case (Cons x xs)
  have "map snd (insort_key fst (f x, x) (sort_key fst (zip (map f xs) xs)))
      = insort_key f x (map snd (sort_key fst (zip (map f xs) xs)))"
    by (rule insort_decorated) (rule sort_decorated_inv)
  with Cons show ?case by simp
qed

lemma request_wire:
  "snd (request arm rq tmo sock resp) = [(socket_of arm sock, packet_of arm rq tmo)]"
  by (simp add: request_def socket_of_def packet_of_def Let_def)

lemma unit_result_wire: "snd (unit_result rw) = snd rw"
  by (cases rw) (auto simp: unit_result_def split: sum.splits)

text \<open>
  C4 (as amended).  A joints list that the validation of \<open>goto_joints\<close> and
  \<open>goto_joints_sync\<close> accepts has seven joints; each name has exactly the four parts
  \<open>yumi\<close>, \<open>joint\<close>, an integer literal of value 1 to 7 and the first letter of the arm's
  name; the list is sorted by that integer, stably, and it is the sorted list whose
  degrees make the body of the one packet sent, on the main socket with the motion
  timeout.  Nothing compares the names with each other.
\<close>

theorem accepted_joints_checked_and_sorted:
  assumes "check_and_sort_joints arm joints = Inr sorted_joints"
  shows "length joints = 7
    \<and> (\<forall>j \<in> set joints. name_checked arm (jname j))
    \<and> sorted_joints = sort_key joint_index joints
    \<and> sorted (map joint_index sorted_joints)
    \<and> mset sorted_joints = mset joints
    \<and> snd (goto_joints degrees arm joints resp) =
        [(main_socket arm,
          RequestPacket (construct_req goto_joints_c (joints_to_str degrees sorted_joints))
            (motion_timeout arm) True)]
    \<and> snd (goto_joints_sync degrees arm joints resp) =
        [(main_socket arm,
          RequestPacket (construct_req goto_joints_sync_c (joints_to_str degrees sorted_joints))
            (motion_timeout arm) True)]"
proof -
  from assms have len: "length joints = JOINTS" and chk: "check_joints arm joints = Inr ()"
    and srt: "sort_joints joints = Inr sorted_joints"
    by (auto simp: check_and_sort_joints_def split: if_splits sum.splits)
  have l7: "length joints = 7" using len by (simp add: JOINTS_def)
  have each: "\<And>j. j \<in> set joints \<Longrightarrow> check_joint arm j = Inr ()"
    using chk by (rule check_joints_all)
  have names: "\<forall>j \<in> set joints. name_checked arm (jname j)"
    using each check_joint_ok by blast
  have "sort_indices joints = Inr (map joint_index joints)"
    by (rule sort_indices_ok) (use each check_joint_ok in blast)
  with srt have eq: "sorted_joints = sort_key joint_index joints"
    by (simp add: sort_joints_def sort_decorated)
  have w1: "snd (goto_joints degrees arm joints resp) =
        [(main_socket arm,
          RequestPacket (construct_req goto_joints_c (joints_to_str degrees sorted_joints))
            (motion_timeout arm) True)]"
    using assms
    by (simp add: goto_joints_def unit_result_wire request_wire socket_of_def packet_of_def)
  have w2: "snd (goto_joints_sync degrees arm joints resp) =
        [(main_socket arm,
          RequestPacket (construct_req goto_joints_sync_c (joints_to_str degrees sorted_joints))
            (motion_timeout arm) True)]"
    using assms
    by (simp add: goto_joints_sync_def unit_result_wire request_wire socket_of_def packet_of_def)
  show ?thesis
    using l7 names eq w1 w2 by simp
qed

theorem accepted_joints_checked_and_sorted_witness:
  "check_and_sort_joints ex_left_arm ex_mixed_joints =
      Inr (map (\<lambda>n. Joint n (Finite 0)) [''yumi_joint_1_l'', ''yumi_joint_01_l'', ''yumi_joint_2_l'',
        ''yumi_joint_3_l'', ''yumi_joint_5_l'', ''yumi_joint_6_l'', ''yumi_joint_7_l''])
   \<and> snd (goto_joints (\<lambda>v. v) ex_left_arm ex_mixed_joints ex_ok) =
        [(0, RequestPacket ''2 0 0 0 0 0 0 0 #'' 20 True)]"
proof -
  have h: "check_and_sort_joints ex_left_arm ex_mixed_joints =
      Inr (map (\<lambda>n. Joint n (Finite 0)) [''yumi_joint_1_l'', ''yumi_joint_01_l'', ''yumi_joint_2_l'',
        ''yumi_joint_3_l'', ''yumi_joint_5_l'', ''yumi_joint_6_l'', ''yumi_joint_7_l''])"
    by code_simp
  have b: "construct_req goto_joints_c (joints_to_str (\<lambda>v. v) (map (\<lambda>n. Joint n (Finite 0)) [''yumi_joint_1_l'', ''yumi_joint_01_l'', ''yumi_joint_2_l'',
        ''yumi_joint_3_l'', ''yumi_joint_5_l'', ''yumi_joint_6_l'', ''yumi_joint_7_l''])) = ''2 0 0 0 0 0 0 0 #''"
    by code_simp
  have a: "main_socket ex_left_arm = 0" "motion_timeout ex_left_arm = 20"
    by (simp_all add: ex_left_arm_def)
  show ?thesis
    using accepted_joints_checked_and_sorted [OF h, of "\<lambda>v. v" ex_ok] h b a by simp
qed

text \<open>
  C4 as stated fails: seven copies of the first joint of the left arm are accepted and
  sent, and their names are not the seven joint names of the arm.
\<close>

theorem duplicate_joints_accepted:
  "goto_joints (\<lambda>v. v) ex_left_arm ex_dup_joints ex_ok =
      (Inr (), [(0, RequestPacket ''2 0 0 0 0 0 0 0 #'' 20 True)])
   \<and> goto_joints_sync (\<lambda>v. v) ex_left_arm ex_dup_joints ex_ok =
      (Inr (), [(0, RequestPacket ''12 0 0 0 0 0 0 0 #'' 20 True)])
   \<and> joint_names ex_left_arm \<noteq> Inr (set (map jname ex_dup_joints))"
  by code_simp


section \<open>Properties of the response classification\<close>









section \<open>Properties of the gripper commands\<close>

lemma iter_to_str_foldl:
  "foldl (\<lambda>result val. result @ g val) acc xs = acc @ foldl (\<lambda>result val. result @ g val) [] xs"
proof (induction xs arbitrary: acc)
  case Nil
  then show ?case by simp
next
  case (Cons x xs)
  show ?case
    using Cons [of "acc @ g x"] Cons [of "[] @ g x"] by simp
qed

lemma iter_to_str_append:
  "iter_to_str t (xs @ ys) = iter_to_str t xs @ iter_to_str t ys"
  unfolding iter_to_str_def foldl_append
  by (rule iter_to_str_foldl)

lemma no_wait_field: "iter_to_str (format_float 1) (no_wait_flag True) = ''0 ''"
  by code_simp

lemma no_wait_absent: "iter_to_str (format_float 1) (no_wait_flag False) = []"
  by code_simp

lemma max_gripper_width:
  "MAX_GRIPPER_WIDTH = Finite (5764607523034235 / 288230376151711744)"
  by code_simp

text \<open>
  C5 (as amended).  \<open>close_gripper\<close> does not clamp: a force below 0 or above 20 N and a
  width below 0 or above 0.02 m (the double of that literal) are rejected with a ValueError
  and nothing is sent; every other force and width go out as they are, the force and the
  float product of 1000.0 and the width, in one packet on the main socket with the motion
  timeout.  In \<open>close_gripper\<close> and in \<open>open_gripper\<close>, \<open>no_wait\<close> appends one field \<open>0\<close>
  to the body.
\<close>

theorem close_gripper_rejects_and_no_wait_appends:
  "(flt force (Finite 0) \<or> flt (Finite 20) force \<or> flt width (Finite 0) \<or> flt MAX_GRIPPER_WIDTH width \<longrightarrow>
      (\<exists>msg. close_gripper float_str arm force width no_wait resp = (Inl (ValueError msg), [])))
   \<and> (\<not> (flt force (Finite 0) \<or> flt (Finite 20) force \<or> flt width (Finite 0)
          \<or> flt MAX_GRIPPER_WIDTH width) \<longrightarrow>
        snd (close_gripper float_str arm force width no_wait resp) =
          [(main_socket arm,
            RequestPacket
              (construct_req close_gripper_c
                (iter_to_str (format_float 1) [force, fmul (Finite 1000) width]
                 @ (if no_wait then ''0 '' else [])))
              (motion_timeout arm) True)])
   \<and> snd (open_gripper arm oforce owidth no_wait resp) =
        [(main_socket arm,
          RequestPacket
            (construct_req open_gripper_c
              (iter_to_str (format_float 1)
                 ((case oforce of None \<Rightarrow> Finite 20 | Some f \<Rightarrow> f)
                  # (case owidth of None \<Rightarrow> [] | Some w \<Rightarrow> [fmul (Finite 1000) w]))
               @ (if no_wait then ''0 '' else [])))
            (motion_timeout arm) True)]"
proof -
  have flag: "iter_to_str (format_float 1) (no_wait_flag no_wait) = (if no_wait then ''0 '' else [])"
    using no_wait_field no_wait_absent by simp
  have a: "flt force (Finite 0) \<or> flt (Finite 20) force \<or> flt width (Finite 0) \<or> flt MAX_GRIPPER_WIDTH width \<longrightarrow>
      (\<exists>msg. close_gripper float_str arm force width no_wait resp = (Inl (ValueError msg), []))"
    by (auto simp: close_gripper_def MAX_GRIPPER_FORCE_def)
  have b: "\<not> (flt force (Finite 0) \<or> flt (Finite 20) force \<or> flt width (Finite 0)
          \<or> flt MAX_GRIPPER_WIDTH width) \<longrightarrow>
        snd (close_gripper float_str arm force width no_wait resp) =
          [(main_socket arm,
            RequestPacket
              (construct_req close_gripper_c
                (iter_to_str (format_float 1) [force, fmul (Finite 1000) width]
                 @ (if no_wait then ''0 '' else [])))
              (motion_timeout arm) True)]"
    using iter_to_str_append [of "format_float 1" "[force, fmul (Finite 1000) width]" "no_wait_flag no_wait"] flag
    by (simp add: close_gripper_def MAX_GRIPPER_FORCE_def METERS_TO_MM_def
        Let_def unit_result_wire request_wire socket_of_def packet_of_def)
  have c: "snd (open_gripper arm oforce owidth no_wait resp) =
        [(main_socket arm,
          RequestPacket
            (construct_req open_gripper_c
              (iter_to_str (format_float 1)
                 ((case oforce of None \<Rightarrow> Finite 20 | Some f \<Rightarrow> f)
                  # (case owidth of None \<Rightarrow> [] | Some w \<Rightarrow> [fmul (Finite 1000) w]))
               @ (if no_wait then ''0 '' else [])))
            (motion_timeout arm) True)]"
  proof -
    define F where "F = (case oforce of None \<Rightarrow> Finite 20 | Some f \<Rightarrow> f)"
    have F: "(case oforce of None \<Rightarrow> MAX_GRIPPER_FORCE | Some f \<Rightarrow> f) = F"
      by (simp add: F_def MAX_GRIPPER_FORCE_def split: option.splits)
    have "snd (open_gripper arm oforce owidth no_wait resp) =
        [(main_socket arm,
          RequestPacket
            (construct_req open_gripper_c
              (iter_to_str (format_float 1)
                 (F # (case owidth of None \<Rightarrow> [] | Some w \<Rightarrow> [fmul (Finite 1000) w]))
               @ (if no_wait then ''0 '' else [])))
            (motion_timeout arm) True)]"
    proof (cases owidth)
      case None
      then show ?thesis
        using iter_to_str_append [of "format_float 1" "[F]" "no_wait_flag no_wait"] flag
        by (simp add: open_gripper_def F Let_def unit_result_wire request_wire socket_of_def packet_of_def)
    next
      case (Some w)
      then show ?thesis
        using iter_to_str_append [of "format_float 1" "[F, fmul (Finite 1000) w]" "no_wait_flag no_wait"] flag
        by (simp add: open_gripper_def F METERS_TO_MM_def Let_def unit_result_wire request_wire
            socket_of_def packet_of_def)
    qed
    then show ?thesis by (simp add: F_def)
  qed
  show ?thesis using a b c by blast
qed

lemma ex_gripper_guards:
  "flt (Finite 20) (Finite 25)"
  "\<not> (flt (Finite 10) (Finite 0) \<or> flt (Finite 20) (Finite 10)
       \<or> flt (round_double (25 / 100000)) (Finite 0) \<or> flt MAX_GRIPPER_WIDTH (round_double (25 / 100000)))"
  "\<not> (flt (Finite 10) (Finite 0) \<or> flt (Finite 20) (Finite 10)
       \<or> flt MAX_GRIPPER_WIDTH (Finite 0) \<or> flt MAX_GRIPPER_WIDTH MAX_GRIPPER_WIDTH)"
  by code_simp+

lemma ex_gripper_bodies:
  "construct_req close_gripper_c
     (iter_to_str (format_float 1) [Finite 10, fmul (Finite 1000) (round_double (25 / 100000))] @ ''0 '')
     = ''20 10 0.2 0 #''"
  "construct_req close_gripper_c
     (iter_to_str (format_float 1) [Finite 10, fmul (Finite 1000) MAX_GRIPPER_WIDTH] @ [])
     = ''20 10 20 #''"
  "construct_req open_gripper_c (iter_to_str (format_float 1) [Finite 20] @ ''0 '') = ''21 20 0 #''"
  by code_simp+

theorem close_gripper_rejects_and_no_wait_appends_witness:
  "(\<exists>msg. close_gripper ex_float_str ex_left_arm (Finite 25) (Finite 0) False ex_ok = (Inl (ValueError msg), []))
   \<and> snd (close_gripper ex_float_str ex_left_arm (Finite 10) (round_double (25 / 100000)) True ex_ok) =
        [(0, RequestPacket ''20 10 0.2 0 #'' 20 True)]
   \<and> snd (close_gripper ex_float_str ex_left_arm (Finite 10) MAX_GRIPPER_WIDTH False ex_ok) =
        [(0, RequestPacket ''20 10 20 #'' 20 True)]
   \<and> snd (open_gripper ex_left_arm None None True ex_ok) = [(0, RequestPacket ''21 20 0 #'' 20 True)]"
proof -
  have a: "main_socket ex_left_arm = 0" "motion_timeout ex_left_arm = 20"
    by (simp_all add: ex_left_arm_def)
  have c1: "\<exists>msg. close_gripper ex_float_str ex_left_arm (Finite 25) (Finite 0) False ex_ok = (Inl (ValueError msg), [])"
    using close_gripper_rejects_and_no_wait_appends
      [of "Finite 25" "Finite 0" ex_float_str ex_left_arm False ex_ok None None]
      ex_gripper_guards(1)
    by simp
  have c2: "snd (close_gripper ex_float_str ex_left_arm (Finite 10) (round_double (25 / 100000)) True ex_ok) =
        [(0, RequestPacket ''20 10 0.2 0 #'' 20 True)]"
    using close_gripper_rejects_and_no_wait_appends
      [of "Finite 10" "round_double (25 / 100000)" ex_float_str ex_left_arm True ex_ok None None]
      ex_gripper_guards(2) ex_gripper_bodies(1) a
    by simp
  have c3: "snd (close_gripper ex_float_str ex_left_arm (Finite 10) MAX_GRIPPER_WIDTH False ex_ok) =
        [(0, RequestPacket ''20 10 20 #'' 20 True)]"
    using close_gripper_rejects_and_no_wait_appends
      [of "Finite 10" MAX_GRIPPER_WIDTH ex_float_str ex_left_arm False ex_ok None None]
      ex_gripper_guards(3) ex_gripper_bodies(2) a
    by simp
  have c4: "snd (open_gripper ex_left_arm None None True ex_ok) = [(0, RequestPacket ''21 20 0 #'' 20 True)]"
    using close_gripper_rejects_and_no_wait_appends
      [of "Finite 10" MAX_GRIPPER_WIDTH ex_float_str ex_left_arm True ex_ok None None]
      ex_gripper_bodies(3) a
    by simp
  show ?thesis using c1 c2 c3 c4 by simp
qed

text \<open>
  C5 as stated fails: a force of 25 N is not clamped to 20 N.  \<open>close_gripper\<close> sends
  nothing, and \<open>open_gripper\<close> sends a force of 25 and a width of 50 mm where the clamped
  values are 20 and 20.
\<close>

theorem gripper_force_not_clamped:
  "close_gripper ex_float_str ex_left_arm (Finite 25) (Finite 0) False ex_ok =
      (Inl (ValueError ''Gripper force can only be between 0 and 20. Got 25.0.''), [])
   \<and> snd (open_gripper ex_left_arm (Some (Finite 25)) (Some (round_double (5 / 100))) False ex_ok) =
        [(0, RequestPacket ''21 25 50 #'' 20 True)]
   \<and> construct_req open_gripper_c (claimed_gripper_body (Finite 25) (round_double (5 / 100)) False)
        = ''21 20 20 #''"
  by code_simp

section \<open>Properties of the wire encoding\<close>

text \<open>
  C3.  The trimming of trailing zeros is applied to the conf integers too, which have no
  decimal point to stop it: of the default configuration 0, 0, 0, 4 only the token 4 is left
  in the body, and 10 is sent as 1.
\<close>

theorem conf_integers_lose_trailing_zeros:
  "iter_to_str format_d [0, 0, 0, 4] = ''   4 ''
   \<and> split_ws (iter_to_str format_d [0, 0, 0, 4]) = [''4'']
   \<and> snd (set_conf ex_left_arm [0, 0, 0, 4] ex_ok) = [(0, RequestPacket ''10    4 #'' 5 True)]
   \<and> iter_to_str format_d [10] = ''1 ''"
  by code_simp


section \<open>Properties of the operations that take a pose\<close>

lemma get_pose_body_unchanged:
  "unchanged h (snd (get_pose_body f h p))"
  by (simp add: get_pose_body_def deepcopy_def position_imul_def set_position_def unchanged_def Let_def
      split: Position.splits prod.splits)

lemma unchanged_pose_value:
  "unchanged h h' \<Longrightarrow> valid_pose h p \<Longrightarrow> pose_value h' p = pose_value h p"
  unfolding unchanged_def valid_pose_def pose_value_def
  by (metis nth_take)

lemma unchanged_refl: "unchanged h h"
  by (simp add: unchanged_def)

lemma goto_pose_heap:
  "snd (goto_pose f m d arm h p l r resp) = (if r then h else snd (get_pose_body f h p))"
  by (simp add: goto_pose_def Let_def case_prod_unfold)

lemma goto_pose_sync_heap:
  "snd (goto_pose_sync f arm h p resp) = snd (get_pose_body f h p)"
  by (simp add: goto_pose_sync_def Let_def case_prod_unfold)

lemma set_tool_heap:
  "snd (set_tool f arm h p resp) = snd (get_pose_body f h p)"
  by (simp add: set_tool_def Let_def case_prod_unfold)

lemma buffer_add_single_heap:
  "snd (buffer_add_single f arm h p resp) = snd (get_pose_body f h p)"
  by (simp add: buffer_add_single_def Let_def case_prod_unfold)

lemma is_pose_reachable_heap:
  "snd (is_pose_reachable f arm h p resp) = snd (get_pose_body f h p)"
  by (simp add: is_pose_reachable_def Let_def case_prod_unfold)

lemma ik_heap:
  "snd (ik f pf rad arm h p resp) = snd (get_pose_body f h p)"
  by (simp add: ik_def Let_def case_prod_unfold)

text \<open>
  C9.  Each operation of an arm that takes a pose leaves every object of the caller's heap
  as it was, the pose it was given with its position and orientation among them: the body
  is built from a deep copy, and the multiplication that turns metres into millimetres
  overwrites the position of the copy.
\<close>

theorem pose_argument_unchanged:
  assumes "valid_pose h pose"
  shows "pose_value (snd (goto_pose f m d arm h pose linear_path relative resp)) pose = pose_value h pose
    \<and> pose_value (snd (goto_pose_sync f arm h pose resp)) pose = pose_value h pose
    \<and> pose_value (snd (set_tool f arm h pose resp)) pose = pose_value h pose
    \<and> pose_value (snd (is_pose_reachable f arm h pose resp)) pose = pose_value h pose
    \<and> pose_value (snd (ik f pf rad arm h pose resp)) pose = pose_value h pose
    \<and> pose_value (snd (buffer_add_single f arm h pose resp)) pose = pose_value h pose
    \<and> unchanged h (snd (goto_pose f m d arm h pose linear_path relative resp))
    \<and> unchanged h (snd (goto_pose_sync f arm h pose resp))
    \<and> unchanged h (snd (set_tool f arm h pose resp))
    \<and> unchanged h (snd (is_pose_reachable f arm h pose resp))
    \<and> unchanged h (snd (ik f pf rad arm h pose resp))
    \<and> unchanged h (snd (buffer_add_single f arm h pose resp))"
  using assms
  by (simp add: goto_pose_heap goto_pose_sync_heap set_tool_heap is_pose_reachable_heap ik_heap
      buffer_add_single_heap unchanged_refl get_pose_body_unchanged unchanged_pose_value)


theorem pose_argument_unchanged_witness:
  "goto_pose wxyz (\<lambda>m. Inl (YumiException m)) (\<lambda>a b. ([], [])) ex_left_arm ex_heap 0 True False ex_ok =
     ((Inr (), [(0, RequestPacket ''1 300 0 200 1 0 0 0 #'' 20 True)]),
      \<lparr>positions = [Position (round_double (3 / 10)) (Finite 0) (round_double (2 / 10)),
                   Position (Finite 300) (Finite 0) (Finite 200)],
       orientations = [Orientation (Finite 0) (Finite 0) (Finite 0) (Finite 1),
                      Orientation (Finite 0) (Finite 0) (Finite 0) (Finite 1)],
       poses = [Pose 0 0, Pose 1 1]\<rparr>)
   \<and> pose_value (snd (goto_pose wxyz (\<lambda>m. Inl (YumiException m)) (\<lambda>a b. ([], [])) ex_left_arm ex_heap 0
        True False ex_ok)) 0 = (Position (round_double (3 / 10)) (Finite 0) (round_double (2 / 10)),
           Orientation (Finite 0) (Finite 0) (Finite 0) (Finite 1))"
proof -
  have v: "valid_pose ex_heap 0"
    by (simp add: valid_pose_def ex_heap_def)
  have e: "goto_pose wxyz (\<lambda>m. Inl (YumiException m)) (\<lambda>a b. ([], [])) ex_left_arm ex_heap 0 True False ex_ok =
     ((Inr (), [(0, RequestPacket ''1 300 0 200 1 0 0 0 #'' 20 True)]),
      \<lparr>positions = [Position (round_double (3 / 10)) (Finite 0) (round_double (2 / 10)),
                   Position (Finite 300) (Finite 0) (Finite 200)],
       orientations = [Orientation (Finite 0) (Finite 0) (Finite 0) (Finite 1),
                      Orientation (Finite 0) (Finite 0) (Finite 0) (Finite 1)],
       poses = [Pose 0 0, Pose 1 1]\<rparr>)"
    by code_simp
  have p: "pose_value ex_heap 0 = (Position (round_double (3 / 10)) (Finite 0) (round_double (2 / 10)),
           Orientation (Finite 0) (Finite 0) (Finite 0) (Finite 1))"
    by (simp add: pose_value_def ex_heap_def)
  have u: "pose_value (snd (goto_pose wxyz (\<lambda>m. Inl (YumiException m)) (\<lambda>a b. ([], [])) ex_left_arm ex_heap 0
        True False ex_ok)) 0 = pose_value ex_heap 0"
    using pose_argument_unchanged [OF v, of wxyz "\<lambda>m. Inl (YumiException m)" "\<lambda>a b. ([], [])"
        ex_left_arm True False ex_ok]
    by blast
  show ?thesis
    using e u p by simp
qed


section \<open>Properties of the coordinator\<close>

lemma lu_refl: "lock_untouched r r"
  by (simp add: lock_untouched_def)

lemma lu_trans: "lock_untouched r r' \<Longrightarrow> lock_untouched r' r'' \<Longrightarrow> lock_untouched r r''"
  by (auto simp: lock_untouched_def)

lemma lu_emit: "ev \<noteq> Acquire \<Longrightarrow> ev \<noteq> Release \<Longrightarrow> lock_untouched r (emit ev r)"
  by (simp add: lock_untouched_def emit_def)

lemma lu_fields:
  "lock_untouched r (r\<lparr>open_sockets := s\<rparr>)" "lock_untouched r (r\<lparr>speed := v\<rparr>)"
  "lock_untouched r (r\<lparr>left := a\<rparr>)" "lock_untouched r (r\<lparr>right := a\<rparr>)"
  by (simp_all add: lock_untouched_def)

lemma lu_submit_to_arms: "lock_untouched r (snd (submit_to_arms c r))"
  by (simp add: submit_to_arms_def lock_untouched_def emit_def)

lemma lu_set_v: "lock_untouched r (snd (set_v e n r))"
  using lu_submit_to_arms [of r "SetSpeed (get_v n)"]
  by (simp add: set_v_def Let_def case_prod_unfold lu_refl)

lemma lu_set_z: "lock_untouched r (snd (set_z e nm r))"
  using lu_submit_to_arms [of r]
  by (simp add: set_z_def Let_def case_prod_unfold lu_refl split: sum.splits)

lemma lu_set_tool_both: "lock_untouched r (snd (set_tool_both e p r))"
  using lu_submit_to_arms [of r]
  by (simp add: set_tool_both_def Let_def case_prod_unfold)

lemma lu_call_arm: "lock_untouched r (snd (call_arm e a c r))"
  by (simp add: call_arm_def lu_emit)

lemma lu_default_configuration: "lock_untouched r (snd (default_configuration e r))"
proof -
  have 1: "lock_untouched r (snd (set_tool_both e identity_pose r))"
    by (rule lu_set_tool_both)
  have 2: "\<And>r1. lock_untouched r r1 \<Longrightarrow> lock_untouched r (snd (set_z e ''fine'' r1))"
    using lu_set_z lu_trans by blast
  have 3: "\<And>r1 a c. lock_untouched r r1 \<Longrightarrow> lock_untouched r (snd (call_arm e a c r1))"
    using lu_call_arm lu_trans by blast
  show ?thesis
    unfolding default_configuration_def
    by (auto split: prod.splits sum.splits)
       (metis 1 2 3 snd_conv)+
qed


lemma lu_close_socket: "lock_untouched r (close_socket s r)"
  by (simp add: close_socket_def lock_untouched_def emit_def)

lemma lu_close_all: "lock_untouched r (foldl (\<lambda>r' s. close_socket s r') r ss)"
proof (induction ss arbitrary: r)
  case Nil
  show ?case by (simp add: lu_refl)
next
  case (Cons s ss)
  show ?case
    using lu_trans [OF lu_close_socket [of r s] Cons [of "close_socket s r"]] by simp
qed

lemma lu_terminate: "lock_untouched r (terminate a r)"
  by (simp add: terminate_def lu_close_all)

lemma lu_new_socket: "lock_untouched r (snd (new_socket e p r))"
  by (simp add: new_socket_def lock_untouched_def emit_def split: option.splits)

lemma lu_set_arm: "lock_untouched r (set_arm a arm r)"
  by (cases a) (simp_all add: set_arm_def lu_fields)

lemma lu_reconnect: "lock_untouched r (snd (reconnect e a r))"
proof -
  have n: "\<And>r1 p. lock_untouched r r1 \<Longrightarrow> lock_untouched r (snd (new_socket e p r1))"
    using lu_new_socket lu_trans by blast
  have s: "\<And>r1 arm. lock_untouched r r1 \<Longrightarrow> lock_untouched r (set_arm a arm r1)"
    using lu_set_arm lu_trans by blast
  have t: "lock_untouched r (terminate a r)"
    by (rule lu_terminate)
  show ?thesis
    unfolding reconnect_def Let_def
    by (auto split: prod.splits sum.splits) (metis n s t snd_conv)+
qed

lemma lu_rws_do: "lock_untouched r (snd (rws_do e c r))"
  by (simp add: rws_do_def lu_emit)

lemma lu_recover: "lock_untouched r (snd (recover e r))"
proof -
  have w: "\<And>r1 c. lock_untouched r r1 \<Longrightarrow> lock_untouched r (snd (rws_do e c r1))"
    using lu_rws_do lu_trans by blast
  have c: "\<And>r1 a. lock_untouched r r1 \<Longrightarrow> lock_untouched r (snd (reconnect e a r1))"
    using lu_reconnect lu_trans by blast
  have d: "\<And>r1. lock_untouched r r1 \<Longrightarrow> lock_untouched r (snd (default_configuration e r1))"
    using lu_default_configuration lu_trans by blast
  have f: "\<And>r1 v. lock_untouched r r1 \<Longrightarrow> lock_untouched r (r1\<lparr>speed := v\<rparr>)"
    using lu_fields(2) lu_trans by blast
  have 0: "lock_untouched r r" by (rule lu_refl)
  show ?thesis
    unfolding recover_def
    by (auto split: prod.splits sum.splits option.splits) (metis 0 w c d f snd_conv)+
qed

lemma lu_on_program_stopped: "lock_untouched r (snd (on_program_stopped e r))"
  using lu_recover [of r e]
  by (auto simp: on_program_stopped_def split: prod.splits sum.splits)

lemma lu_wait_first: "lock_untouched r (snd (wait_first e pending evt_set r))"
proof (induction e pending evt_set r rule: wait_first.induct)
  case (1 e pending evt_set r)
  show ?case
  proof (cases "pending = []")
    case True
    then show ?thesis by (simp add: wait_first.simps lu_refl)
  next
    case False
    show ?thesis
    proof (cases "next_completed e pending evt_set")
      case None
      with False show ?thesis by (simp add: wait_first.simps lu_refl)
    next
      case (Some tr)
      obtain t res where tr: "tr = (t, res)" by (cases tr)
      show ?thesis
      proof (cases res)
        case (Inr u)
        have "lock_untouched (emit EvtSet r) (snd (wait_first e (remove1 t pending) True (emit EvtSet r)))"
          using "1.IH" [OF False Some tr [symmetric] Inr] .
        then have "lock_untouched r (snd (wait_first e (remove1 t pending) True (emit EvtSet r)))"
          using lu_emit [of EvtSet r] lu_trans by blast
        with False Some tr Inr show ?thesis
          by (simp add: wait_first.simps [of e pending])
      next
        case (Inl err)
        with False Some tr show ?thesis
          using lu_on_program_stopped [of r e] lu_emit [of EvtSet r]
          by (simp add: wait_first.simps [of e pending] lu_refl case_prod_unfold)
      qed
    qed
  qed
qed

lemma lu_wait_all_then: "lock_untouched r (snd (wait_all_then e futures r))"
  using lu_on_program_stopped [of r e] lu_emit [of EvtSet r]
  by (simp add: wait_all_then_def lu_refl split: option.splits)

lemma lu_goto_joints_sync_both: "lock_untouched r (snd (goto_joints_sync_both e l1 l2 r))"
  by (simp add: goto_joints_sync_both_def Let_def lock_untouched_def emit_def)


lemma with_move_lock_shape:
  assumes "\<not> move_lock r" and "\<And>r1. lock_untouched r1 (snd (body r1))"
  shows "\<exists>evs. Acquire \<notin> set evs \<and> Release \<notin> set evs
    \<and> trace (snd (with_move_lock body r)) =
        trace r @ Acquire # evs @ (if fst (with_move_lock body r) = None then [] else [Release])
    \<and> (fst (with_move_lock body r) \<noteq> None \<longrightarrow> \<not> move_lock (snd (with_move_lock body r)))"
proof -
  define r0 where "r0 = emit Acquire (r\<lparr>move_lock := True\<rparr>)"
  obtain x r1 where b: "body r0 = (x, r1)" by (cases "body r0")
  from assms(2) [of r0] b obtain evs where evs: "trace r1 = trace r0 @ evs"
    "Acquire \<notin> set evs" "Release \<notin> set evs"
    by (auto simp: lock_untouched_def)
  have t0: "trace r0 = trace r @ [Acquire]"
    by (simp add: r0_def emit_def)
  have w: "with_move_lock body r =
      (case x of None \<Rightarrow> (None, r1) | Some res \<Rightarrow> (Some res, emit Release (r1\<lparr>move_lock := False\<rparr>)))"
    using assms(1) b by (simp add: with_move_lock_def r0_def)
  show ?thesis
    using evs t0 by (cases x) (auto simp: w emit_def)
qed

lemma move_to_pose_body_lu:
  "lock_untouched r1
     (snd (case sn of
             Inl err \<Rightarrow> (Some (Inl err), r1)
           | Inr n \<Rightarrow>
               (case set_v e n r1 of
                  (Inl err, r1) \<Rightarrow> (Some (Inl err), r1)
                | (Inr _, r1) \<Rightarrow>
                    (let r2 = emit (Submit Supervisor) r1 in
                     case arm_by_name arm_id of
                       Inl err \<Rightarrow> (Some (Inl err), r2)
                     | Inr a \<Rightarrow>
                         (let t = ArmTask a (GotoPose (f r2) linear_path);
                              r3 = emit (Submit t) r2
                          in wait_first e [Supervisor, t] False r3)))))"
proof (cases sn)
  case (Inl err)
  then show ?thesis by (simp add: lu_refl)
next
  case (Inr n)
  have sv: "lock_untouched r1 (snd (set_v e n r1))" by (rule lu_set_v)
  have em: "\<And>r2 t. lock_untouched r1 r2 \<Longrightarrow> lock_untouched r1 (emit (Submit t) r2)"
    using lu_emit lu_trans by blast
  have wf: "\<And>r2 ts b. lock_untouched r1 r2 \<Longrightarrow> lock_untouched r1 (snd (wait_first e ts b r2))"
    using lu_wait_first lu_trans by blast
  show ?thesis
    unfolding Inr
    by (auto simp: Let_def split: prod.splits sum.splits) (metis sv em wf snd_conv)+
qed

lemma move_to_pose_shape:
  assumes "\<not> move_lock r"
  shows "trace (snd (move_to_pose e tp spd lp arm_id r)) = trace r
    \<or> (\<exists>evs. Acquire \<notin> set evs \<and> Release \<notin> set evs
        \<and> trace (snd (move_to_pose e tp spd lp arm_id r)) =
            trace r @ Acquire # evs @ (if fst (move_to_pose e tp spd lp arm_id r) = None then [] else [Release])
        \<and> (fst (move_to_pose e tp spd lp arm_id r) \<noteq> None \<longrightarrow>
              \<not> move_lock (snd (move_to_pose e tp spd lp arm_id r))))"
proof (cases "speed_in_range spd")
  case False
  then show ?thesis by (simp add: move_to_pose_def)
next
  case True
  let ?body = "\<lambda>r. case speed_number spd r of
                 Inl err \<Rightarrow> (Some (Inl err), r)
               | Inr n \<Rightarrow>
                   (case set_v e n r of
                      (Inl err, r1) \<Rightarrow> (Some (Inl err), r1)
                    | (Inr _, r1) \<Rightarrow>
                        (let r2 = emit (Submit Supervisor) r1 in
                         case arm_by_name arm_id of
                           Inl err \<Rightarrow> (Some (Inl err), r2)
                         | Inr a \<Rightarrow>
                             (let t = ArmTask a (GotoPose (make_pose_rel e (robot_pose r2) tp) lp);
                                  r3 = emit (Submit t) r2
                              in wait_first e [Supervisor, t] False r3)))"
  have m: "move_to_pose e tp spd lp arm_id r = with_move_lock ?body r"
    using True by (simp add: move_to_pose_def)
  have "\<And>r1. lock_untouched r1 (snd (?body r1))"
    using move_to_pose_body_lu [where f = "\<lambda>r2. make_pose_rel e (robot_pose r2) tp"] .
  from with_move_lock_shape [OF assms, of ?body, OF this]
  show ?thesis unfolding m by simp
qed


lemma set_v_state:
  "trace (snd (set_v e n r)) = trace r @ set_speed_events n r"
  "move_lock (snd (set_v e n r)) = move_lock r"
  "speed (snd (set_v e n r)) = speed r"
  "max_tcp_speed (snd (set_v e n r)) = max_tcp_speed r"
  by (auto simp: set_v_def set_speed_events_def submit_to_arms_def emit_def Let_def get_v_def
      construct_speed_data_def)

lemma set_speed_events_quiet:
  "Acquire \<notin> set (set_speed_events n r)" "Release \<notin> set (set_speed_events n r)"
  "Rws c \<notin> set (set_speed_events n r)"
  by (simp_all add: set_speed_events_def)

lemma move_both_arms_body_lu:
  "lock_untouched r1
     (snd (let tl = ArmTask LEFT (GotoPoseSync (f r1));
               tr = ArmTask RIGHT (GotoPoseSync (g r1));
               r2 = emit (Submit tr) (emit (Submit tl) (emit (Submit Supervisor) r1))
           in case wait_all_then e [Supervisor, tl, tr] r2 of (x, r') \<Rightarrow> (Some x, r')))"
proof -
  have em: "\<And>r2 t. lock_untouched r1 r2 \<Longrightarrow> lock_untouched r1 (emit (Submit t) r2)"
    using lu_emit lu_trans by blast
  have wa: "\<And>r2 ts. lock_untouched r1 r2 \<Longrightarrow> lock_untouched r1 (snd (wait_all_then e ts r2))"
    using lu_wait_all_then lu_trans by blast
  show ?thesis
    by (simp add: Let_def case_prod_unfold em wa lu_refl)
qed

lemma move_both_arms_shape:
  assumes "\<not> move_lock r"
  shows "\<exists>sv. Acquire \<notin> set sv \<and> Release \<notin> set sv \<and> Rws StopRapid \<notin> set sv
    \<and> (trace (snd (move_both_arms e lp rp spd r)) = trace r @ sv
        \<or> (\<exists>evs. Acquire \<notin> set evs \<and> Release \<notin> set evs
            \<and> trace (snd (move_both_arms e lp rp spd r)) =
                trace r @ sv @ Acquire # evs @ (if fst (move_both_arms e lp rp spd r) = None then [] else [Release])
            \<and> (fst (move_both_arms e lp rp spd r) \<noteq> None \<longrightarrow>
                  \<not> move_lock (snd (move_both_arms e lp rp spd r)))))"
proof (cases "speed_in_range spd \<and> (\<exists>n. speed_number spd r = Inr n)")
  case False
  then have "trace (snd (move_both_arms e lp rp spd r)) = trace r @ []"
    by (cases "speed_number spd r") (auto simp: move_both_arms_def)
  then show ?thesis by (intro exI [of _ "[]"]) simp
next
  case True
  then obtain n where n: "speed_number spd r = Inr n" and True: "speed_in_range spd"
    by blast
  obtain x r1 where sv: "set_v e n r = (x, r1)" by (cases "set_v e n r")
  have t1: "trace r1 = trace r @ set_speed_events n r" and l1: "\<not> move_lock r1"
    using set_v_state(1,2) [of e n r] sv assms by simp_all
  show ?thesis
  proof (cases x)
    case (Inl err)
    then have "trace (snd (move_both_arms e lp rp spd r)) = trace r @ set_speed_events n r"
      using True sv t1 by (simp add: move_both_arms_def n)
    then show ?thesis
      using set_speed_events_quiet [where n = n and r = r] by blast
  next
    case (Inr u)
    let ?body = "\<lambda>r. let tl = ArmTask LEFT (GotoPoseSync (make_pose_rel e (robot_pose r) lp));
                     tr = ArmTask RIGHT (GotoPoseSync (make_pose_rel e (robot_pose r) rp));
                     r2 = emit (Submit tr) (emit (Submit tl) (emit (Submit Supervisor) r))
                 in case wait_all_then e [Supervisor, tl, tr] r2 of (x, r') \<Rightarrow> (Some x, r')"
    have m: "move_both_arms e lp rp spd r = with_move_lock ?body r1"
      using True sv Inr by (simp add: move_both_arms_def n)
    have "\<And>r0. lock_untouched r0 (snd (?body r0))"
      using move_both_arms_body_lu [where f = "\<lambda>r. make_pose_rel e (robot_pose r) lp"
          and g = "\<lambda>r. make_pose_rel e (robot_pose r) rp"] .
    from with_move_lock_shape [OF l1, of ?body, OF this]
    obtain evs where evs: "Acquire \<notin> set evs" "Release \<notin> set evs"
      "trace (snd (with_move_lock ?body r1)) =
         trace r1 @ Acquire # evs @ (if fst (with_move_lock ?body r1) = None then [] else [Release])"
      "fst (with_move_lock ?body r1) \<noteq> None \<longrightarrow> \<not> move_lock (snd (with_move_lock ?body r1))"
      by blast
    show ?thesis
      apply (rule exI [of _ "set_speed_events n r"])
      using evs set_speed_events_quiet [where n = n and r = r] t1 unfolding m
      by auto
  qed
qed

lemma lock_after_quiet:
  "Acquire \<notin> set evs \<Longrightarrow> Release \<notin> set evs \<Longrightarrow> lock_after held evs = held"
  by (induction evs arbitrary: held) auto

lemma lock_after_append:
  "lock_after held (xs @ ys) = lock_after (lock_after held xs) ys"
  by (induction xs arbitrary: held) auto

lemma inside_the_lock:
  assumes "Acquire # evs @ tail = p @ Rws StopRapid # q"
    and "Acquire \<notin> set evs" and "Release \<notin> set evs" and "tail = [] \<or> tail = [Release]"
  shows "lock_after held p \<and> (tail = [Release] \<longrightarrow> q \<noteq> [] \<and> last q = Release)"
proof -
  from assms(1) obtain p' where p: "p = Acquire # p'" and e: "evs @ tail = p' @ Rws StopRapid # q"
    by (cases p) auto
  from e obtain us where "(evs = p' @ us \<and> us @ tail = Rws StopRapid # q)
      \<or> (evs @ us = p' \<and> tail = us @ Rws StopRapid # q)"
    by (auto simp: append_eq_append_conv2)
  then have 1: "evs = p' @ us" and 2: "us @ tail = Rws StopRapid # q"
    using assms(4) by (auto simp: append_eq_Cons_conv Cons_eq_append_conv)
  have "lock_after held p = lock_after True p'"
    by (simp add: p)
  also have "\<dots> = True"
    using 1 assms(2,3) by (intro lock_after_quiet) auto
  finally have a: "lock_after held p" by simp
  have b: "tail = [Release] \<longrightarrow> q \<noteq> [] \<and> last q = Release"
  proof
    assume t: "tail = [Release]"
    with 2 have "q = tl us @ [Release]"
      by (cases us) auto
    then show "q \<noteq> [] \<and> last q = Release" by simp
  qed
  show ?thesis using a b by simp
qed

text \<open>
  C2 (as amended).  In every execution of \<open>move_to_pose\<close> and of \<open>move_both_arms\<close> that
  reaches \<open>recover()\<close>, whose first action is the stop of RAPID, the recovery runs while
  the motion mutex is held: the mutex was acquired before and has not been released.  It
  is released when the \<open>with\<close> block is left, after the recovery has returned or raised.
\<close>

theorem recover_runs_inside_the_mutex:
  assumes "\<not> move_lock r"
    and "move_to_pose e target_pose spd linear_path arm_id r = (res, r')
       \<or> move_both_arms e left_pose right_pose spd r = (res, r')"
    and "new_events r r' = p @ Rws StopRapid # q"
  shows "lock_after False p \<and> (res \<noteq> None \<longrightarrow> q \<noteq> [] \<and> last q = Release \<and> \<not> move_lock r')"
  using assms(2)
proof
  assume m: "move_to_pose e target_pose spd linear_path arm_id r = (res, r')"
  from move_to_pose_shape [OF assms(1), of e target_pose spd linear_path arm_id] m
  consider "trace r' = trace r"
    | evs where "Acquire \<notin> set evs" "Release \<notin> set evs"
        "trace r' = trace r @ Acquire # evs @ (if res = None then [] else [Release])"
        "res \<noteq> None \<longrightarrow> \<not> move_lock r'"
    by auto
  then show ?thesis
  proof cases
    case 1
    with assms(3) show ?thesis by (simp add: new_events_def)
  next
    case 2
    then have "Acquire # evs @ (if res = None then [] else [Release]) = p @ Rws StopRapid # q"
      using assms(3) by (simp add: new_events_def)
    from inside_the_lock [OF this 2(1,2), of False] 2(4)
    show ?thesis by (cases "res = None") auto
  qed
next
  assume m: "move_both_arms e left_pose right_pose spd r = (res, r')"
  from move_both_arms_shape [OF assms(1), of e left_pose right_pose spd] m
  obtain sv where sv: "Acquire \<notin> set sv" "Release \<notin> set sv" "Rws StopRapid \<notin> set sv"
    and d: "trace r' = trace r @ sv
        \<or> (\<exists>evs. Acquire \<notin> set evs \<and> Release \<notin> set evs
            \<and> trace r' = trace r @ sv @ Acquire # evs @ (if res = None then [] else [Release])
            \<and> (res \<noteq> None \<longrightarrow> \<not> move_lock r'))"
    by auto
  from d show ?thesis
  proof
    assume "trace r' = trace r @ sv"
    with assms(3) sv(3) show ?thesis by (auto simp: new_events_def)
  next
    assume "\<exists>evs. Acquire \<notin> set evs \<and> Release \<notin> set evs
            \<and> trace r' = trace r @ sv @ Acquire # evs @ (if res = None then [] else [Release])
            \<and> (res \<noteq> None \<longrightarrow> \<not> move_lock r')"
    then obtain evs where evs: "Acquire \<notin> set evs" "Release \<notin> set evs"
        "trace r' = trace r @ sv @ Acquire # evs @ (if res = None then [] else [Release])"
        "res \<noteq> None \<longrightarrow> \<not> move_lock r'"
      by blast
    let ?rest = "Acquire # evs @ (if res = None then [] else [Release])"
    from evs(3) assms(3) have "sv @ ?rest = p @ Rws StopRapid # q"
      by (simp add: new_events_def)
    then obtain us where "(sv = p @ us \<and> us @ ?rest = Rws StopRapid # q)
        \<or> (sv @ us = p \<and> ?rest = us @ Rws StopRapid # q)"
      by (auto simp: append_eq_append_conv2)
    then have p: "p = sv @ us" and r: "?rest = us @ Rws StopRapid # q"
      using sv(3) by (auto simp: append_eq_Cons_conv)
    have "lock_after False p = lock_after False us"
      using sv(1,2) by (simp add: p lock_after_append lock_after_quiet)
    with inside_the_lock [OF r evs(1,2), of False] evs(4)
    show ?thesis by (cases "res = None") auto
  qed
qed


lemma speed_numbers_default:
  assumes "max_tcp_speed r = MAX_TCP_SPEED"
  shows "speed_number (Finite (1 / 2)) r = Inr 750"
    and "speed_number (Finite (1 / 512)) r = Inr 2"
    and "speed_number (round_double (22 / 1000)) r = Inr 33"
  unfolding speed_number_def assms by code_simp+

lemma speeds_in_range:
  "speed_in_range (Finite (1 / 2))" "speed_in_range (Finite (1 / 512))"
  "speed_in_range (round_double (22 / 1000))"
  by code_simp+

lemmas coordinator_defs =
  move_to_pose_def move_both_arms_def with_move_lock_def wait_first.simps wait_all_then_def
  next_completed_def as_completed_def ends_by_itself_def outcome_def wait_for_all_def
  on_program_stopped_def recover_def escaping_def rws_do_def reconnect_def terminate_def
  close_socket_def new_socket_def set_arm_def arm_of_def arm_by_name_def default_configuration_def
  set_tool_both_def set_z_def get_z_def ZONE_VALUES_def call_arm_def set_v_def get_v_def
  construct_speed_data_def submit_to_arms_def speed_numbers_default speeds_in_range
  is_YumiException_def is_RwsException_def emit_def Let_def

lemmas example_defs =
  ex_robot_def ex_left_arm_def ex_right_arm_def ex_world_def ex_world_stopped_def ex_target_def
  identity_pose_def

lemma stopped_run:
  "ex_stopped_run =
     (Some (Inl (YumiException (codepoints ''Impossible motion.''))),
      \<lparr>speed = None, max_tcp_speed = MAX_TCP_SPEED, robot_pose = identity_pose,
       left = ex_left_arm\<lparr>main_socket := 6, poses_socket := 7, joints_socket := 8\<rparr>,
       right = ex_right_arm\<lparr>main_socket := 9, poses_socket := 10, joints_socket := 11\<rparr>,
       sockets_created = 12, open_sockets = [6, 7, 8, 9, 10, 11], move_lock = False,
       trace =
         [Acquire, Submit (ArmTask LEFT (SetSpeed (750, 500, 750, 500))),
          Submit (ArmTask RIGHT (SetSpeed (750, 500, 750, 500))), Submit Supervisor,
          Submit (ArmTask LEFT (GotoPose ex_target True)),
          Rws StopRapid, Rws ResetPP, Rws StartRapid, Close 0, Close 1, Close 2, Connect 6 5000,
          Connect 7 5002, Connect 8 5004, Close 3, Close 4, Close 5, Connect 9 5001, Connect 10 5003,
          Connect 11 5005,
          Submit (ArmTask LEFT (SetTool identity_pose)), Submit (ArmTask RIGHT (SetTool identity_pose)),
          Submit (ArmTask LEFT (SetZone (1, Finite 0, Finite 0, Finite 0))), Submit (ArmTask RIGHT (SetZone (1, Finite 0, Finite 0, Finite 0))),
          Call LEFT (SetConf [0, 0, 0, 4]), Call RIGHT (SetConf [0, 0, 0, 4]), Release]\<rparr>)"
  unfolding ex_stopped_run_def
  by (simp add: coordinator_defs example_defs)


theorem recover_runs_inside_the_mutex_witness:
  "lock_after False
     [Acquire, Submit (ArmTask LEFT (SetSpeed (750, 500, 750, 500))),
      Submit (ArmTask RIGHT (SetSpeed (750, 500, 750, 500))), Submit Supervisor,
      Submit (ArmTask LEFT (GotoPose ex_target True))]
   \<and> \<not> move_lock (snd ex_stopped_run)"
proof -
  have h1: "\<not> move_lock ex_robot"
    by (simp add: ex_robot_def)
  have h2: "move_to_pose ex_world_stopped ex_target (Finite (1 / 2)) True (Some ''left'') ex_robot
        = (fst ex_stopped_run, snd ex_stopped_run)
      \<or> move_both_arms ex_world_stopped ex_target ex_target (Finite (1 / 2)) ex_robot
        = (fst ex_stopped_run, snd ex_stopped_run)"
    by (simp add: ex_stopped_run_def)
  have h3: "new_events ex_robot (snd ex_stopped_run) =
     [Acquire, Submit (ArmTask LEFT (SetSpeed (750, 500, 750, 500))),
      Submit (ArmTask RIGHT (SetSpeed (750, 500, 750, 500))), Submit Supervisor,
      Submit (ArmTask LEFT (GotoPose ex_target True))]
     @ Rws StopRapid #
     [Rws ResetPP, Rws StartRapid, Close 0, Close 1, Close 2, Connect 6 5000, Connect 7 5002,
      Connect 8 5004, Close 3, Close 4, Close 5, Connect 9 5001, Connect 10 5003, Connect 11 5005,
      Submit (ArmTask LEFT (SetTool identity_pose)), Submit (ArmTask RIGHT (SetTool identity_pose)),
      Submit (ArmTask LEFT (SetZone (1, Finite 0, Finite 0, Finite 0))), Submit (ArmTask RIGHT (SetZone (1, Finite 0, Finite 0, Finite 0))),
      Call LEFT (SetConf [0, 0, 0, 4]), Call RIGHT (SetConf [0, 0, 0, 4]), Release]"
    by (simp add: stopped_run new_events_def ex_robot_def)
  have h4: "fst ex_stopped_run \<noteq> None"
    by (simp add: stopped_run)
  show ?thesis
    using recover_runs_inside_the_mutex [OF h1 h2 h3] h4 by simp
qed

text \<open>
  C2 as stated fails.  The program stops while the left arm moves: the supervisor is the
  first task to end, \<open>move_to_pose\<close> recovers and raises.  When the recovery starts, the
  mutex acquired by the motion has not been released; it is released after the recovery.
\<close>

theorem recover_while_mutex_held:
  "fst ex_stopped_run = Some (Inl (YumiException (codepoints ''Impossible motion.'')))
   \<and> takeWhile (\<lambda>ev. ev \<noteq> Rws StopRapid) (new_events ex_robot (snd ex_stopped_run)) =
       [Acquire, Submit (ArmTask LEFT (SetSpeed (750, 500, 750, 500))),
        Submit (ArmTask RIGHT (SetSpeed (750, 500, 750, 500))), Submit Supervisor,
        Submit (ArmTask LEFT (GotoPose ex_target True))]
   \<and> lock_after False (takeWhile (\<lambda>ev. ev \<noteq> Rws StopRapid) (new_events ex_robot (snd ex_stopped_run)))
   \<and> Rws StopRapid \<in> set (new_events ex_robot (snd ex_stopped_run))
   \<and> last (new_events ex_robot (snd ex_stopped_run)) = Release"
  by (simp add: stopped_run new_events_def ex_robot_def)

text \<open>
  C1.  \<open>set_v\<close> compares the requested speed number with \<open>_speed\<close> and never assigns
  it: after a \<open>set_v(750)\<close> that succeeded on both arms the cache is still unset, and the
  same call again submits \<open>set_speed\<close> to both arms a second time.
\<close>

theorem set_v_twice_sends_twice:
  "fst (set_v ex_world 750 ex_robot) = Inr ()
   \<and> speed (snd (set_v ex_world 750 ex_robot)) = None
   \<and> fst (set_v ex_world 750 (snd (set_v ex_world 750 ex_robot))) = Inr ()
   \<and> trace (snd (set_v ex_world 750 (snd (set_v ex_world 750 ex_robot)))) =
       [Submit (ArmTask LEFT (SetSpeed (750, 500, 750, 500))),
        Submit (ArmTask RIGHT (SetSpeed (750, 500, 750, 500))),
        Submit (ArmTask LEFT (SetSpeed (750, 500, 750, 500))),
        Submit (ArmTask RIGHT (SetSpeed (750, 500, 750, 500)))]"
  by (simp add: coordinator_defs example_defs)

lemma recovered_once:
  "recover ex_world_stopped ex_robot =
     (Inr (),
      \<lparr>speed = None, max_tcp_speed = MAX_TCP_SPEED, robot_pose = identity_pose,
       left = ex_left_arm\<lparr>main_socket := 6, poses_socket := 7, joints_socket := 8\<rparr>,
       right = ex_right_arm\<lparr>main_socket := 9, poses_socket := 10, joints_socket := 11\<rparr>,
       sockets_created = 12, open_sockets = [6, 7, 8, 9, 10, 11], move_lock = False,
       trace =
         [Rws StopRapid, Rws ResetPP, Rws StartRapid, Close 0, Close 1, Close 2, Connect 6 5000,
          Connect 7 5002, Connect 8 5004, Close 3, Close 4, Close 5, Connect 9 5001, Connect 10 5003,
          Connect 11 5005,
          Submit (ArmTask LEFT (SetTool identity_pose)), Submit (ArmTask RIGHT (SetTool identity_pose)),
          Submit (ArmTask LEFT (SetZone (1, Finite 0, Finite 0, Finite 0))), Submit (ArmTask RIGHT (SetZone (1, Finite 0, Finite 0, Finite 0))),
          Call LEFT (SetConf [0, 0, 0, 4]), Call RIGHT (SetConf [0, 0, 0, 4])]\<rparr>)"
  by (simp add: coordinator_defs example_defs)

lemma recovered_twice:
  "recover ex_world_stopped
     \<lparr>speed = None, max_tcp_speed = MAX_TCP_SPEED, robot_pose = identity_pose,
       left = ex_left_arm\<lparr>main_socket := 6, poses_socket := 7, joints_socket := 8\<rparr>,
       right = ex_right_arm\<lparr>main_socket := 9, poses_socket := 10, joints_socket := 11\<rparr>,
       sockets_created = 12, open_sockets = [6, 7, 8, 9, 10, 11], move_lock = False,
       trace = tr\<rparr> =
     (Inr (),
      \<lparr>speed = None, max_tcp_speed = MAX_TCP_SPEED, robot_pose = identity_pose,
       left = ex_left_arm\<lparr>main_socket := 12, poses_socket := 13, joints_socket := 14\<rparr>,
       right = ex_right_arm\<lparr>main_socket := 15, poses_socket := 16, joints_socket := 17\<rparr>,
       sockets_created = 18, open_sockets = [6, 7, 8, 9, 10, 11, 12, 13, 14, 15, 16, 17], move_lock = False,
       trace = tr @
         [Rws StopRapid, Rws ResetPP, Rws StartRapid, Close 0, Close 1, Close 2, Connect 12 5000,
          Connect 13 5002, Connect 14 5004, Close 3, Close 4, Close 5, Connect 15 5001, Connect 16 5003,
          Connect 17 5005,
          Submit (ArmTask LEFT (SetTool identity_pose)), Submit (ArmTask RIGHT (SetTool identity_pose)),
          Submit (ArmTask LEFT (SetZone (1, Finite 0, Finite 0, Finite 0))), Submit (ArmTask RIGHT (SetZone (1, Finite 0, Finite 0, Finite 0))),
          Call LEFT (SetConf [0, 0, 0, 4]), Call RIGHT (SetConf [0, 0, 0, 4])]\<rparr>)"
  by (simp add: coordinator_defs example_defs)

text \<open>
  C7.  The first recovery of a robot does what the claim says, in its order.  It leaves
  each arm with three new sockets, 6 to 11 here, and with \<open>_sockets\<close> still naming the
  sockets of \<open>__init__\<close>, which \<open>reconnect\<close> does not assign.  In the second recovery each
  arm closes those again, 0 to 5, and not its three sockets: 6 to 11 stay open beside the
  six new ones.
\<close>

theorem second_recovery_leaves_sockets_open:
  "fst (recover ex_world_stopped ex_robot) = Inr ()
   \<and> trace ex_recovered_once =
       [Rws StopRapid, Rws ResetPP, Rws StartRapid, Close 0, Close 1, Close 2, Connect 6 5000,
        Connect 7 5002, Connect 8 5004, Close 3, Close 4, Close 5, Connect 9 5001, Connect 10 5003,
        Connect 11 5005,
        Submit (ArmTask LEFT (SetTool identity_pose)), Submit (ArmTask RIGHT (SetTool identity_pose)),
        Submit (ArmTask LEFT (SetZone (1, Finite 0, Finite 0, Finite 0))), Submit (ArmTask RIGHT (SetZone (1, Finite 0, Finite 0, Finite 0))),
        Call LEFT (SetConf [0, 0, 0, 4]), Call RIGHT (SetConf [0, 0, 0, 4])]
   \<and> speed ex_recovered_once = None
   \<and> open_sockets ex_recovered_once = [6, 7, 8, 9, 10, 11]
   \<and> map (\<lambda>f. f (left ex_recovered_once)) [main_socket, poses_socket, joints_socket] = [6, 7, 8]
   \<and> map (\<lambda>f. f (right ex_recovered_once)) [main_socket, poses_socket, joints_socket] = [9, 10, 11]
   \<and> sockets (left ex_recovered_once) = [0, 1, 2]
   \<and> sockets (right ex_recovered_once) = [3, 4, 5]
   \<and> fst (recover ex_world_stopped ex_recovered_once) = Inr ()
   \<and> new_events ex_recovered_once ex_recovered_twice =
       [Rws StopRapid, Rws ResetPP, Rws StartRapid, Close 0, Close 1, Close 2, Connect 12 5000,
        Connect 13 5002, Connect 14 5004, Close 3, Close 4, Close 5, Connect 15 5001, Connect 16 5003,
        Connect 17 5005,
        Submit (ArmTask LEFT (SetTool identity_pose)), Submit (ArmTask RIGHT (SetTool identity_pose)),
        Submit (ArmTask LEFT (SetZone (1, Finite 0, Finite 0, Finite 0))), Submit (ArmTask RIGHT (SetZone (1, Finite 0, Finite 0, Finite 0))),
        Call LEFT (SetConf [0, 0, 0, 4]), Call RIGHT (SetConf [0, 0, 0, 4])]
   \<and> open_sockets ex_recovered_twice = [6, 7, 8, 9, 10, 11, 12, 13, 14, 15, 16, 17]"
proof -
  have once: "ex_recovered_once =
      \<lparr>speed = None, max_tcp_speed = MAX_TCP_SPEED, robot_pose = identity_pose,
       left = ex_left_arm\<lparr>main_socket := 6, poses_socket := 7, joints_socket := 8\<rparr>,
       right = ex_right_arm\<lparr>main_socket := 9, poses_socket := 10, joints_socket := 11\<rparr>,
       sockets_created = 12, open_sockets = [6, 7, 8, 9, 10, 11], move_lock = False,
       trace =
         [Rws StopRapid, Rws ResetPP, Rws StartRapid, Close 0, Close 1, Close 2, Connect 6 5000,
          Connect 7 5002, Connect 8 5004, Close 3, Close 4, Close 5, Connect 9 5001, Connect 10 5003,
          Connect 11 5005,
          Submit (ArmTask LEFT (SetTool identity_pose)), Submit (ArmTask RIGHT (SetTool identity_pose)),
          Submit (ArmTask LEFT (SetZone (1, Finite 0, Finite 0, Finite 0))), Submit (ArmTask RIGHT (SetZone (1, Finite 0, Finite 0, Finite 0))),
          Call LEFT (SetConf [0, 0, 0, 4]), Call RIGHT (SetConf [0, 0, 0, 4])]\<rparr>"
    unfolding ex_recovered_once_def recovered_once by simp
  have first: "fst (recover ex_world_stopped ex_robot) = Inr ()"
    unfolding recovered_once by simp
  have twice: "recover ex_world_stopped ex_recovered_once =
     (Inr (),
      \<lparr>speed = None, max_tcp_speed = MAX_TCP_SPEED, robot_pose = identity_pose,
       left = ex_left_arm\<lparr>main_socket := 12, poses_socket := 13, joints_socket := 14\<rparr>,
       right = ex_right_arm\<lparr>main_socket := 15, poses_socket := 16, joints_socket := 17\<rparr>,
       sockets_created = 18, open_sockets = [6, 7, 8, 9, 10, 11, 12, 13, 14, 15, 16, 17], move_lock = False,
       trace = trace ex_recovered_once @
         [Rws StopRapid, Rws ResetPP, Rws StartRapid, Close 0, Close 1, Close 2, Connect 12 5000,
          Connect 13 5002, Connect 14 5004, Close 3, Close 4, Close 5, Connect 15 5001, Connect 16 5003,
          Connect 17 5005,
          Submit (ArmTask LEFT (SetTool identity_pose)), Submit (ArmTask RIGHT (SetTool identity_pose)),
          Submit (ArmTask LEFT (SetZone (1, Finite 0, Finite 0, Finite 0))), Submit (ArmTask RIGHT (SetZone (1, Finite 0, Finite 0, Finite 0))),
          Call LEFT (SetConf [0, 0, 0, 4]), Call RIGHT (SetConf [0, 0, 0, 4])]\<rparr>)"
    unfolding once recovered_twice by simp
  have second: "fst (recover ex_world_stopped ex_recovered_once) = Inr ()"
    unfolding twice by simp
  have new: "new_events ex_recovered_once ex_recovered_twice =
       [Rws StopRapid, Rws ResetPP, Rws StartRapid, Close 0, Close 1, Close 2, Connect 12 5000,
        Connect 13 5002, Connect 14 5004, Close 3, Close 4, Close 5, Connect 15 5001, Connect 16 5003,
        Connect 17 5005,
        Submit (ArmTask LEFT (SetTool identity_pose)), Submit (ArmTask RIGHT (SetTool identity_pose)),
        Submit (ArmTask LEFT (SetZone (1, Finite 0, Finite 0, Finite 0))), Submit (ArmTask RIGHT (SetZone (1, Finite 0, Finite 0, Finite 0))),
        Call LEFT (SetConf [0, 0, 0, 4]), Call RIGHT (SetConf [0, 0, 0, 4])]"
    unfolding ex_recovered_twice_def twice new_events_def by simp
  have opened: "open_sockets ex_recovered_twice = [6, 7, 8, 9, 10, 11, 12, 13, 14, 15, 16, 17]"
    unfolding ex_recovered_twice_def twice by simp
  have state: "trace ex_recovered_once =
       [Rws StopRapid, Rws ResetPP, Rws StartRapid, Close 0, Close 1, Close 2, Connect 6 5000,
        Connect 7 5002, Connect 8 5004, Close 3, Close 4, Close 5, Connect 9 5001, Connect 10 5003,
        Connect 11 5005,
        Submit (ArmTask LEFT (SetTool identity_pose)), Submit (ArmTask RIGHT (SetTool identity_pose)),
        Submit (ArmTask LEFT (SetZone (1, Finite 0, Finite 0, Finite 0))), Submit (ArmTask RIGHT (SetZone (1, Finite 0, Finite 0, Finite 0))),
        Call LEFT (SetConf [0, 0, 0, 4]), Call RIGHT (SetConf [0, 0, 0, 4])]"
    "speed ex_recovered_once = None"
    "open_sockets ex_recovered_once = [6, 7, 8, 9, 10, 11]"
    "map (\<lambda>f. f (left ex_recovered_once)) [main_socket, poses_socket, joints_socket] = [6, 7, 8]"
    "map (\<lambda>f. f (right ex_recovered_once)) [main_socket, poses_socket, joints_socket] = [9, 10, 11]"
    "sockets (left ex_recovered_once) = [0, 1, 2]"
    "sockets (right ex_recovered_once) = [3, 4, 5]"
    unfolding once by (simp_all add: ex_left_arm_def ex_right_arm_def)
  show ?thesis
    using first second new opened state by blast
qed



lemma lu_extends: "lock_untouched r r' \<Longrightarrow> \<exists>evs. trace r' = trace r @ evs"
  by (auto simp: lock_untouched_def)

lemma locked_set_v_prefix:
  assumes "\<not> move_lock r" and "\<And>r1. lock_untouched r1 (snd (rest_of r1))"
    and "speed_number spd r = Inr n"
  shows "\<exists>rest. trace (snd (with_move_lock
            (\<lambda>r. case speed_number spd r of
                    Inl err \<Rightarrow> (Some (Inl err), r)
                  | Inr n \<Rightarrow>
                      (case set_v e n r of
                         (Inl err, r1) \<Rightarrow> (Some (Inl err), r1)
                       | (Inr u, r1) \<Rightarrow> rest_of r1)) r)) =
          trace r @ Acquire # set_speed_events n r @ rest"
proof -
  define r0 where "r0 = emit Acquire (r\<lparr>move_lock := True\<rparr>)"
  have n0: "speed_number spd r0 = Inr n"
    using assms(3) by (simp add: r0_def speed_number_def emit_def)
  obtain x r1 where sv: "set_v e n r0 = (x, r1)" by (cases "set_v e n r0")
  have t1: "trace r1 = trace r @ Acquire # set_speed_events n r"
    using set_v_state(1) [of e n r0] sv
    by (simp add: r0_def emit_def set_speed_events_def)
  let ?body = "\<lambda>r. case speed_number spd r of
                    Inl err \<Rightarrow> (Some (Inl err), r)
                  | Inr n \<Rightarrow>
                      (case set_v e n r of
                         (Inl err, r1) \<Rightarrow> (Some (Inl err), r1)
                       | (Inr u, r1) \<Rightarrow> rest_of r1)"
  have b: "?body r0 = (case x of Inl err \<Rightarrow> (Some (Inl err), r1) | Inr u \<Rightarrow> rest_of r1)"
    using sv by (simp add: n0 split: sum.splits)
  obtain evs where t2: "trace (snd (?body r0)) = trace r1 @ evs"
  proof (cases x)
    case (Inl err)
    then have "trace (snd (?body r0)) = trace r1 @ []" using b by simp
    then show ?thesis using that by blast
  next
    case (Inr u)
    then have "snd (?body r0) = snd (rest_of r1)" using b by simp
    then show ?thesis using lu_extends [OF assms(2) [of r1]] that by auto
  qed
  obtain y r2 where yr: "?body r0 = (y, r2)" by (cases "?body r0")
  have w: "with_move_lock ?body r =
      (case y of None \<Rightarrow> (None, r2) | Some res \<Rightarrow> (Some res, emit Release (r2\<lparr>move_lock := False\<rparr>)))"
    using assms(1) yr unfolding with_move_lock_def r0_def [symmetric] by simp
  have "trace r2 = trace r @ Acquire # set_speed_events n r @ evs"
    using t1 t2 yr by simp
  then show ?thesis
    unfolding w by (cases y) (auto simp: emit_def)
qed

lemma move_to_pose_prefix:
  assumes "speed_in_range spd" and "\<not> move_lock r" and "speed_number spd r = Inr n"
  shows "\<exists>rest. trace (snd (move_to_pose e tp spd lp arm_id r)) =
          trace r @ Acquire # set_speed_events n r @ rest"
proof -
  let ?rest = "\<lambda>r1. let r2 = emit (Submit Supervisor) r1 in
                    case arm_by_name arm_id of
                      Inl err \<Rightarrow> (Some (Inl err), r2)
                    | Inr a \<Rightarrow>
                        (let t = ArmTask a (GotoPose (make_pose_rel e (robot_pose r2) tp) lp);
                             r3 = emit (Submit t) r2
                         in wait_first e [Supervisor, t] False r3)"
  have lu: "\<And>r1. lock_untouched r1 (snd (?rest r1))"
  proof -
    fix r1
    have em: "\<And>r2 t. lock_untouched r1 r2 \<Longrightarrow> lock_untouched r1 (emit (Submit t) r2)"
      using lu_emit lu_trans by blast
    have wf: "\<And>r2 ts b. lock_untouched r1 r2 \<Longrightarrow> lock_untouched r1 (snd (wait_first e ts b r2))"
      using lu_wait_first lu_trans by blast
    show "lock_untouched r1 (snd (?rest r1))"
      by (simp add: Let_def em wf lu_refl split: sum.splits)
  qed
  show ?thesis
    using locked_set_v_prefix [OF assms(2), of ?rest spd n e, OF lu assms(3)] assms(1)
    by (simp add: move_to_pose_def)
qed

lemma move_to_joints_prefix:
  assumes "speed_in_range spd" and "\<not> move_lock r" and "speed_number spd r = Inr n"
  shows "\<exists>rest. trace (snd (move_to_joints e js spd arm_id r)) =
          trace r @ Acquire # set_speed_events n r @ rest"
proof -
  let ?rest = "\<lambda>r1. case arm_id of
                      None \<Rightarrow>
                        (let left_joints = filter (\<lambda>j. endswith (jname j) ''_l'') js;
                             right_joints = filter (\<lambda>j. endswith (jname j) ''_r'') js
                         in case goto_joints_sync_both e left_joints right_joints r1 of
                              (x, r2) \<Rightarrow> (Some x, r2))
                    | Some nm \<Rightarrow>
                        (case arm_by_name arm_id of
                           Inl err \<Rightarrow> (Some (Inl err), r1)
                         | Inr a \<Rightarrow>
                             (case call_arm e a (GotoJoints js) r1 of
                                (x, r2) \<Rightarrow> (Some x, r2)))"
  have lu: "\<And>r1. lock_untouched r1 (snd (?rest r1))"
    by (simp add: Let_def case_prod_unfold lu_goto_joints_sync_both lu_call_arm lu_refl
        split: option.splits sum.splits)
  show ?thesis
    using locked_set_v_prefix [OF assms(2), of ?rest spd n e, OF lu assms(3)] assms(1)
    by (simp add: move_to_joints_def)
qed

lemma move_both_arms_prefix:
  assumes "speed_in_range spd" and "\<not> move_lock r" and "speed_number spd r = Inr n"
  shows "\<exists>rest. trace (snd (move_both_arms e lp rp spd r)) =
          trace r @ set_speed_events n r @ rest"
proof -
  obtain x r1 where sv: "set_v e n r = (x, r1)" by (cases "set_v e n r")
  have t1: "trace r1 = trace r @ set_speed_events n r" and l1: "\<not> move_lock r1"
    using set_v_state(1,2) [of e n r] sv assms(2) by simp_all
  show ?thesis
  proof (cases x)
    case (Inl err)
    then have "trace (snd (move_both_arms e lp rp spd r)) = trace r @ set_speed_events n r @ []"
      using assms(1,3) sv t1 by (simp add: move_both_arms_def)
    then show ?thesis by blast
  next
    case (Inr u)
    let ?body = "\<lambda>r. let tl = ArmTask LEFT (GotoPoseSync (make_pose_rel e (robot_pose r) lp));
                     tr = ArmTask RIGHT (GotoPoseSync (make_pose_rel e (robot_pose r) rp));
                     r2 = emit (Submit tr) (emit (Submit tl) (emit (Submit Supervisor) r))
                 in case wait_all_then e [Supervisor, tl, tr] r2 of (x, r') \<Rightarrow> (Some x, r')"
    have m: "move_both_arms e lp rp spd r = with_move_lock ?body r1"
      using assms(1,3) sv Inr by (simp add: move_both_arms_def)
    have "\<And>r0. lock_untouched r0 (snd (?body r0))"
      using move_both_arms_body_lu [where f = "\<lambda>r. make_pose_rel e (robot_pose r) lp"
          and g = "\<lambda>r. make_pose_rel e (robot_pose r) rp"] .
    from with_move_lock_shape [OF l1, of ?body, OF this]
    obtain evs where "trace (snd (with_move_lock ?body r1)) =
         trace r1 @ Acquire # evs @ (if fst (with_move_lock ?body r1) = None then [] else [Release])"
      by blast
    then have "trace (snd (move_both_arms e lp rp spd r)) =
        trace r @ set_speed_events n r @ (Acquire # evs @ (if fst (with_move_lock ?body r1) = None then [] else [Release]))"
      using t1 m by simp
    then show ?thesis by blast
  qed
qed

lemma truncation:
  assumes "int_of_float x = Inr n"
  shows "\<exists>v. float_value x = Some v \<and> \<bar>of_int n\<bar> \<le> \<bar>v\<bar> \<and> \<bar>v\<bar> < \<bar>of_int n\<bar> + 1 \<and> 0 \<le> of_int n * v"
proof (cases x)
  case (Finite q)
  show ?thesis
  proof (cases "0 \<le> q")
    case True
    then have n: "n = \<lfloor>q\<rfloor>" using assms Finite by (simp add: int_of_float_def)
    have "0 \<le> n" using True n by simp
    moreover have "of_int n \<le> q" "q < of_int n + 1" unfolding n by linarith+
    ultimately show ?thesis using True Finite by (simp add: float_value_def abs_if)
  next
    case False
    then have n: "n = \<lceil>q\<rceil>" using assms Finite by (simp add: int_of_float_def)
    have n0: "of_int n \<le> (0::rat)" using False n by (simp add: ceiling_le_iff)
    have q0: "q \<le> 0" using False by simp
    have b: "q \<le> of_int n" "of_int n - 1 < q" unfolding n by linarith+
    have "\<bar>of_int n\<bar> \<le> \<bar>q\<bar>" "\<bar>q\<bar> < \<bar>of_int n\<bar> + 1"
      using n0 q0 b by linarith+
    moreover have "0 \<le> of_int n * q"
      using n0 q0 by (rule mult_nonpos_nonpos)
    ultimately show ?thesis
      using Finite by (simp add: float_value_def)
  qed
next
  case NegZero
  then show ?thesis using assms by (auto simp: int_of_float_def float_value_def)
next
  case PosInf
  then show ?thesis using assms by (simp add: int_of_float_def)
next
  case NegInf
  then show ?thesis using assms by (simp add: int_of_float_def)
next
  case NaN
  then show ?thesis using assms by (simp add: int_of_float_def)
qed

text \<open>
  C8 (as amended).  For a speed factor \<open>s\<close> between 0 and 1, the speed number that
  \<open>move_to_pose\<close>, \<open>move_to_joints\<close> and \<open>move_both_arms\<close> give to \<open>set_v\<close> is
  \<open>int(s * max_tcp_speed * 1000.0)\<close>: the float product, each of its two multiplications
  rounded to the nearest double, truncated toward zero, not rounded to the nearest integer.
  With \<open>v\<close> the value of the float product, \<open>n\<close> has the sign of \<open>v\<close> and
  \<open>|n| \<le> |v| < |n| + 1\<close>.  Unless the cache holds \<open>n\<close>, the first thing each motion does,
  after acquiring the mutex where it has one to acquire first, is to submit \<open>set_speed\<close> to
  the left and to the right arm with the speed data \<open>(n, 500, n, 500)\<close>.
\<close>

theorem speed_number_is_truncated:
  assumes "speed_in_range spd" and "\<not> move_lock r"
    and "speed_number spd r = Inr n" and "speed r \<noteq> Some n"
  shows "(\<exists>v. float_value (fmul (fmul spd (max_tcp_speed r)) (Finite 1000)) = Some v
            \<and> \<bar>of_int n\<bar> \<le> \<bar>v\<bar> \<and> \<bar>v\<bar> < \<bar>of_int n\<bar> + 1 \<and> 0 \<le> of_int n * v)
    \<and> get_v n = (n, 500, n, 500)
    \<and> take 3 (new_events r (snd (move_to_pose e target_pose spd linear_path arm_id r))) =
        [Acquire, Submit (ArmTask LEFT (SetSpeed (n, 500, n, 500))),
         Submit (ArmTask RIGHT (SetSpeed (n, 500, n, 500)))]
    \<and> take 3 (new_events r (snd (move_to_joints e target_joints spd arm_id r))) =
        [Acquire, Submit (ArmTask LEFT (SetSpeed (n, 500, n, 500))),
         Submit (ArmTask RIGHT (SetSpeed (n, 500, n, 500)))]
    \<and> take 2 (new_events r (snd (move_both_arms e left_pose right_pose spd r))) =
        [Submit (ArmTask LEFT (SetSpeed (n, 500, n, 500))),
         Submit (ArmTask RIGHT (SetSpeed (n, 500, n, 500)))]"
proof -
  have "int_of_float (fmul (fmul spd (max_tcp_speed r)) (Finite 1000)) = Inr n"
    using assms(3) by (simp add: speed_number_def METERS_TO_MM_def)
  from truncation [OF this]
  have a: "\<exists>v. float_value (fmul (fmul spd (max_tcp_speed r)) (Finite 1000)) = Some v
            \<and> \<bar>of_int n\<bar> \<le> \<bar>v\<bar> \<and> \<bar>v\<bar> < \<bar>of_int n\<bar> + 1 \<and> 0 \<le> of_int n * v" .
  have b: "get_v n = (n, 500, n, 500)"
    by (simp add: get_v_def construct_speed_data_def)
  have ev: "set_speed_events n r =
      [Submit (ArmTask LEFT (SetSpeed (n, 500, n, 500))), Submit (ArmTask RIGHT (SetSpeed (n, 500, n, 500)))]"
    using assms(4) by (simp add: set_speed_events_def)
  have c: "take 3 (new_events r (snd (move_to_pose e target_pose spd linear_path arm_id r))) =
        [Acquire, Submit (ArmTask LEFT (SetSpeed (n, 500, n, 500))),
         Submit (ArmTask RIGHT (SetSpeed (n, 500, n, 500)))]"
    using move_to_pose_prefix [OF assms(1,2,3), of e target_pose linear_path arm_id]
    by (auto simp: new_events_def ev)
  have d: "take 3 (new_events r (snd (move_to_joints e target_joints spd arm_id r))) =
        [Acquire, Submit (ArmTask LEFT (SetSpeed (n, 500, n, 500))),
         Submit (ArmTask RIGHT (SetSpeed (n, 500, n, 500)))]"
    using move_to_joints_prefix [OF assms(1,2,3), of e target_joints arm_id]
    by (auto simp: new_events_def ev)
  have f: "take 2 (new_events r (snd (move_both_arms e left_pose right_pose spd r))) =
        [Submit (ArmTask LEFT (SetSpeed (n, 500, n, 500))),
         Submit (ArmTask RIGHT (SetSpeed (n, 500, n, 500)))]"
    using move_both_arms_prefix [OF assms(1,2,3), of e left_pose right_pose]
    by (auto simp: new_events_def ev)
  show ?thesis
    using a b c d f by blast
qed

lemma ex_speed_products:
  "float_value (fmul (fmul (round_double (22 / 1000)) (max_tcp_speed ex_robot)) (Finite 1000)) = Some 33"
  "float_value (fmul (fmul (Finite (1 / 512)) (max_tcp_speed ex_robot)) (Finite 1000)) = Some (375 / 128)"
  "round_half_even (375 / 128) = 3"
  "round_double (22 / 1000) = Finite (3170534137668829 / 144115188075855872)"
  by code_simp+

theorem speed_number_is_truncated_witness:
  "speed_number (round_double (22 / 1000)) ex_robot = Inr 33
   \<and> float_value (fmul (fmul (round_double (22 / 1000)) (max_tcp_speed ex_robot)) (Finite 1000)) = Some 33
   \<and> get_v 33 = (33, 500, 33, 500)
   \<and> take 3 (new_events ex_robot
        (snd (move_to_pose ex_world ex_target (round_double (22 / 1000)) True (Some ''left'') ex_robot))) =
        [Acquire, Submit (ArmTask LEFT (SetSpeed (33, 500, 33, 500))),
         Submit (ArmTask RIGHT (SetSpeed (33, 500, 33, 500)))]
   \<and> take 2 (new_events ex_robot
        (snd (move_both_arms ex_world ex_target ex_target (round_double (22 / 1000)) ex_robot))) =
        [Submit (ArmTask LEFT (SetSpeed (33, 500, 33, 500))),
         Submit (ArmTask RIGHT (SetSpeed (33, 500, 33, 500)))]"
proof -
  have h1: "speed_in_range (round_double (22 / 1000))"
    by (rule speeds_in_range)
  have h2: "\<not> move_lock ex_robot"
    by (simp add: ex_robot_def)
  have h3: "speed_number (round_double (22 / 1000)) ex_robot = Inr 33"
    by (rule speed_numbers_default) (simp add: ex_robot_def)
  have h4: "speed ex_robot \<noteq> Some 33"
    by (simp add: ex_robot_def)
  show ?thesis
    using speed_number_is_truncated [OF h1 h2 h3 h4, of ex_world ex_target True "Some ''left''"
        "[]" ex_target ex_target] h3 ex_speed_products(1)
    by simp
qed

text \<open>
  C8 as stated fails.  With the speed factor 1/512 and the maximal speed 1.5 m/s, all
  exact in binary, the float product is 2.9296875: rounded it is 3, and the speed number
  that \<open>move_to_pose\<close> sends to both arms is 2.
\<close>

theorem speed_number_not_rounded:
  "float_value (fmul (fmul (Finite (1 / 512)) (max_tcp_speed ex_robot)) (Finite 1000)) = Some (375 / 128)
   \<and> round_half_even (375 / 128) = 3
   \<and> speed_number (Finite (1 / 512)) ex_robot = Inr 2
   \<and> take 3 (trace (snd (move_to_pose ex_world ex_target (Finite (1 / 512)) True (Some ''left'') ex_robot))) =
        [Acquire, Submit (ArmTask LEFT (SetSpeed (2, 500, 2, 500))),
         Submit (ArmTask RIGHT (SetSpeed (2, 500, 2, 500)))]"
proof -
  have n: "speed_number (Finite (1 / 512)) ex_robot = Inr 2"
    by (rule speed_numbers_default) (simp add: ex_robot_def)
  have "take 3 (trace (snd (move_to_pose ex_world ex_target (Finite (1 / 512)) True (Some ''left'') ex_robot))) =
        [Acquire, Submit (ArmTask LEFT (SetSpeed (2, 500, 2, 500))),
         Submit (ArmTask RIGHT (SetSpeed (2, 500, 2, 500)))]"
    by (simp add: move_to_pose_def with_move_lock_def wait_first.simps
      next_completed_def as_completed_def ends_by_itself_def outcome_def wait_for_all_def
      arm_by_name_def set_v_def get_v_def construct_speed_data_def submit_to_arms_def
      is_YumiException_def emit_def Let_def speed_numbers_default speeds_in_range example_defs)
  then show ?thesis
    using n ex_speed_products by simp
qed


end
